theory Spec2Isabelle
  imports Main "HOL-Library.Word"
begin

unbundle bit_operations_syntax

section \<open>Traffic-detector datasets: export, import and equality\<close>

text \<open>
  A shallow embedding of \<^verbatim>\<open>flow_processing_input.py\<close> and
  \<^verbatim>\<open>flow_processed_output.py\<close>: the four collection classes
  \<^verbatim>\<open>DetectorsLocation\<close>, \<^verbatim>\<open>GroundFlowData\<close>,
  \<^verbatim>\<open>DetectorIdToRoadSections\<close> and \<^verbatim>\<open>OutputFlowDataSet\<close>, each with its
  constructor, \<^verbatim>\<open>export_to_file\<close>, \<^verbatim>\<open>_import_from_file\<close> and \<^verbatim>\<open>__eq__\<close>.
  A method \<^verbatim>\<open>m\<close> of class \<^verbatim>\<open>C\<close> is the constant \<open>C_m\<close>
  (\<^verbatim>\<open>__init__\<close> is \<open>C_init\<close>, \<^verbatim>\<open>__eq__\<close> is \<open>C_eq\<close>).
\<close>

subsection \<open>Python floats and their comparison\<close>

text \<open>
  A Python float is an IEEE 754 binary64 value, kept here as its 64 bits. The only
  operation the code applies to floats is \<^verbatim>\<open>==\<close>: a NaN (exponent all ones, fraction
  not zero) is equal to nothing, itself included; the two zeros are equal; any other two
  floats are equal exactly when their bits are.
\<close>

type_synonym pyfloat = "64 word"

definition float_isnan :: "pyfloat \<Rightarrow> bool" where
  "float_isnan f \<longleftrightarrow>
     f AND 0x7FF0000000000000 = 0x7FF0000000000000 \<and> f AND 0x000FFFFFFFFFFFFF \<noteq> 0"

definition float_iszero :: "pyfloat \<Rightarrow> bool" where
  "float_iszero f \<longleftrightarrow> f AND 0x7FFFFFFFFFFFFFFF = 0"

definition float_eq :: "pyfloat \<Rightarrow> pyfloat \<Rightarrow> bool" where
  "float_eq a b \<longleftrightarrow>
     \<not> float_isnan a \<and> \<not> float_isnan b \<and> (a = b \<or> (float_iszero a \<and> float_iszero b))"

subsection \<open>Data classes\<close>

text \<open>
  \<^verbatim>\<open>DetectorId\<close> and \<^verbatim>\<open>SectionId\<close> are \<^verbatim>\<open>NewType\<close>s of \<^verbatim>\<open>int\<close>;
  \<^verbatim>\<open>Direction\<close> is an \<^verbatim>\<open>Enum\<close>. \<^verbatim>\<open>Point\<close> is shapely's point, of which the
  code reads the float attributes \<^verbatim>\<open>x\<close> and \<^verbatim>\<open>y\<close> only. The keys of a
  \<^verbatim>\<open>flow_data\<close> dictionary are \<^verbatim>\<open>datetime.datetime\<close> values (annotated so in
  \<^verbatim>\<open>DetectorFlowData\<close>) or \<^verbatim>\<open>datetime.time\<close> values (annotated so in
  \<^verbatim>\<open>OutputFlowData\<close>); a value of the one class never equals a value of the other.

  A dictionary is an association list in insertion order; a Python dictionary holds a key
  once, so the lists that stand for one have pairwise distinct keys.

  The fields of the three element classes carry the class as a prefix, since the classes
  share attribute names: \<open>dfd_detector_id\<close> is \<^verbatim>\<open>DetectorFlowData.detector_id\<close>,
  \<open>ditrs_section_id\<close> is \<^verbatim>\<open>DetectorIdToRoadSection.section_id\<close>, \<open>ofd_flow_data\<close>
  is \<^verbatim>\<open>OutputFlowData.flow_data\<close>, and so on.
\<close>

type_synonym DetectorId = int
type_synonym SectionId = int

datatype Direction = north_bound | east_bound | south_bound | west_bound

record Point =
  point_x :: pyfloat
  point_y :: pyfloat

datatype timestamp = Datetime int | Time int

type_synonym flow_dict = "(timestamp \<times> pyfloat) list"

type_synonym location_dict = "(DetectorId \<times> Direction \<times> Point) list"

record DetectorFlowData =
  dfd_detector_id :: DetectorId
  dfd_direction :: Direction
  dfd_flow_data :: flow_dict
  dfd_name :: string
  dfd_year :: int

record DetectorIdToRoadSection =
  ditrs_detector_id :: DetectorId
  ditrs_section_id :: SectionId

record OutputFlowData =
  ofd_detector_id :: DetectorId
  ofd_flow_data :: flow_dict
  ofd_section_id :: SectionId

subsection \<open>Python values, exceptions, files\<close>

text \<open>
  \<open>pyval\<close> is the universe of objects a file can deserialize to: \<^verbatim>\<open>None\<close>, integers
  (\<^verbatim>\<open>bool\<close> is a subclass of \<^verbatim>\<open>int\<close>, so \<^verbatim>\<open>True\<close> and \<^verbatim>\<open>False\<close> are the
  integers 1 and 0), floats, strings, lists of any objects, dictionaries of the shape
  \<^verbatim>\<open>Dict[DetectorId, Tuple[Direction, Point]]\<close>, and instances of the three element
  classes with every annotated attribute set. Lists are heterogeneous, as in Python: the
  import checks look at the first element only.
\<close>

datatype pyval =
    PyNone
  | PyInt int
  | PyFloat pyfloat
  | PyStr string
  | PyList "pyval list"
  | PyDict location_dict
  | PyDetectorFlowData DetectorFlowData
  | PyDetectorIdToRoadSection DetectorIdToRoadSection
  | PyOutputFlowData OutputFlowData

text \<open>
  The exceptions that can leave the code. \<open>Exception msg\<close> is what the code raises
  itself, \<^verbatim>\<open>raise Exception(msg)\<close>; the others are raised by the interpreter
  (a missing attribute, an index out of range, a missing key) or by \<^verbatim>\<open>open\<close> and
  \<^verbatim>\<open>pickle.load\<close>. No method of the four classes catches an exception.
\<close>

datatype py_error =
    Exception string
  | AttributeError
  | IndexError
  | KeyError
  | FileNotFoundError
  | EOFError
  | UnpicklingError
  | ValueError

definition incorrect_data_type :: py_error where
  "incorrect_data_type = Exception ''File has incorrect data type. Import aborted.''"

text \<open>
  A file is the sequence of what successive calls of \<^verbatim>\<open>pickle.load\<close> meet in it:
  \<open>Pickle v\<close> is the bytes \<^verbatim>\<open>pickle.dump(v, file)\<close> wrote, from which \<^verbatim>\<open>pickle.load\<close>
  rebuilds \<open>v\<close> as new objects; \<open>Junk e\<close> is bytes that are no pickle (a plain-text
  file, say), at which \<^verbatim>\<open>pickle.load\<close> raises \<open>e\<close>; at the end of the file
  \<^verbatim>\<open>pickle.load\<close> raises \<^verbatim>\<open>EOFError\<close>. Which exception a plain-text file
  raises depends on its bytes: \<^verbatim>\<open>UnpicklingError\<close> for the text the tests write,
  \<^verbatim>\<open>This is not a serialized detector flow data\<close>, and \<^verbatim>\<open>ValueError\<close> for
  \<^verbatim>\<open>I am a text file\<close> followed by a newline.

  The world is the file system and the warnings issued so far: one entry for each call of
  \<^verbatim>\<open>warnings.warn\<close>. The file system is a map from paths to the files that exist, all
  of them regular and writable, and the set \<open>no_directory\<close> of the paths whose directory
  is missing: no file exists at such a path and none can be created there. No file has the
  empty path: \<^verbatim>\<open>os.path.exists('')\<close> is false and \<^verbatim>\<open>open('')\<close> raises
  \<^verbatim>\<open>FileNotFoundError\<close>.
\<close>

datatype chunk = Pickle pyval | Junk py_error

record world =
  files :: "string \<Rightarrow> chunk list option"
  warnings :: "string list"
  no_directory :: "string set"

definition path_exists :: "world \<Rightarrow> string \<Rightarrow> bool" where
  "path_exists w filepath \<longleftrightarrow> filepath \<noteq> [] \<and> files w filepath \<noteq> None"

definition warnings_warn :: "string \<Rightarrow> world \<Rightarrow> world" where
  "warnings_warn msg w = w\<lparr>warnings := warnings w @ [msg]\<rparr>"

text \<open>
  \<^verbatim>\<open>open(filepath, 'wb')\<close> empties the file that exists at the path, or creates one;
  it raises \<^verbatim>\<open>FileNotFoundError\<close> at the empty path and where there is no file and
  the directory is missing.
\<close>

definition open_wb :: "world \<Rightarrow> string \<Rightarrow> py_error + world" where
  "open_wb w filepath =
     (if filepath = [] \<or> (files w filepath = None \<and> filepath \<in> no_directory w)
      then Inl FileNotFoundError
      else Inr (w\<lparr>files := (files w)(filepath \<mapsto> [])\<rparr>))"

text \<open>\<^verbatim>\<open>pickle.dump(obj, file)\<close>, for the file opened at \<open>filepath\<close>, appends one pickle.\<close>

definition pickle_dump :: "pyval \<Rightarrow> string \<Rightarrow> world \<Rightarrow> world" where
  "pickle_dump obj filepath w =
     w\<lparr>files := (files w)(filepath \<mapsto>
          (case files w filepath of None \<Rightarrow> [] | Some content \<Rightarrow> content) @ [Pickle obj])\<rparr>"

text \<open>\<^verbatim>\<open>open(filepath, 'rb')\<close> gives the content still to be read.\<close>

definition open_rb :: "world \<Rightarrow> string \<Rightarrow> py_error + chunk list" where
  "open_rb w filepath =
     (if filepath = [] then Inl FileNotFoundError
      else case files w filepath of
             None \<Rightarrow> Inl FileNotFoundError
           | Some content \<Rightarrow> Inr content)"

text \<open>\<^verbatim>\<open>pickle.load(file)\<close> returns the next object and leaves the rest to read.\<close>

fun pickle_load :: "chunk list \<Rightarrow> py_error + (pyval \<times> chunk list)" where
  "pickle_load [] = Inl EOFError"
| "pickle_load (Pickle v # rest) = Inr (v, rest)"
| "pickle_load (Junk e # rest) = Inl e"

fun isinstance_DetectorFlowData :: "pyval \<Rightarrow> bool" where
  "isinstance_DetectorFlowData (PyDetectorFlowData r) = True"
| "isinstance_DetectorFlowData v = False"

fun isinstance_DetectorIdToRoadSection :: "pyval \<Rightarrow> bool" where
  "isinstance_DetectorIdToRoadSection (PyDetectorIdToRoadSection r) = True"
| "isinstance_DetectorIdToRoadSection v = False"

fun isinstance_OutputFlowData :: "pyval \<Rightarrow> bool" where
  "isinstance_OutputFlowData (PyOutputFlowData r) = True"
| "isinstance_OutputFlowData v = False"

subsection \<open>The four collection classes\<close>

text \<open>
  An attribute that is annotated in the class body but not yet assigned is \<open>None\<close>:
  reading it raises \<^verbatim>\<open>AttributeError\<close>. \<^verbatim>\<open>DetectorsLocation.__init__\<close> always
  assigns \<^verbatim>\<open>year\<close> (\<open>dl_year\<close>); nothing in the code assigns
  \<^verbatim>\<open>OutputFlowDataSet.year\<close> (\<open>ofds_year\<close>).
\<close>

record DetectorsLocation =
  detectors_location_dict :: "location_dict option"
  dl_year :: int

record GroundFlowData =
  detector_flow_data :: "pyval list option"

record DetectorIdToRoadSections =
  aimsun_detector_locations :: "pyval list option"

record OutputFlowDataSet =
  flow_data_set :: "pyval list option"
  ofds_year :: "int option"

text \<open>
  A method that mutates \<^verbatim>\<open>self\<close> returns the exception it raised, if any, together
  with \<^verbatim>\<open>self\<close> as the call left it; \<^verbatim>\<open>export_to_file\<close> returns the exception,
  if any, together with the world as the call left it.
\<close>

subsubsection \<open>DetectorsLocation\<close>

definition DetectorsLocation_export_to_file ::
    "DetectorsLocation \<Rightarrow> string \<Rightarrow> world \<Rightarrow> py_error option \<times> world" where
  "DetectorsLocation_export_to_file self filepath w =
     (case detectors_location_dict self of
        None \<Rightarrow> (Some AttributeError, w)
      | Some d \<Rightarrow>
          if length d = 0
          then (Some (Exception ''DetectorsLocation has no data. Export aborted.''), w)
          else
            let w1 = (if path_exists w filepath
                      then warnings_warn ''File already exists at filepath. Overwriting file.'' w
                      else w)
            in (case open_wb w1 filepath of
                  Inl e \<Rightarrow> (Some e, w1)
                | Inr w2 \<Rightarrow>
                    (None, pickle_dump (PyInt (dl_year self)) filepath
                             (pickle_dump (PyDict d) filepath w2))))"

definition DetectorsLocation_import_from_file ::
    "DetectorsLocation \<Rightarrow> string \<Rightarrow> world \<Rightarrow> py_error option \<times> DetectorsLocation" where
  "DetectorsLocation_import_from_file self filepath w =
     (case open_rb w filepath of
        Inl e \<Rightarrow> (Some e, self)
      | Inr file0 \<Rightarrow>
          (case pickle_load file0 of
             Inl e \<Rightarrow> (Some e, self)
           | Inr (imported_location_dict, file1) \<Rightarrow>
               (case pickle_load file1 of
                  Inl e \<Rightarrow> (Some e, self)
                | Inr (imported_year, file2) \<Rightarrow>
                    (case imported_location_dict of
                       PyDict d \<Rightarrow>
                         (case imported_year of
                            PyInt y \<Rightarrow>
                              (None, self\<lparr>detectors_location_dict := Some d, dl_year := y\<rparr>)
                          | _ \<Rightarrow> (Some incorrect_data_type, self))
                     | _ \<Rightarrow> (Some incorrect_data_type, self)))))"

definition DetectorsLocation_init ::
    "int \<Rightarrow> string \<Rightarrow> world \<Rightarrow> py_error + DetectorsLocation" where
  "DetectorsLocation_init year filepath w =
     (let self = \<lparr>detectors_location_dict = None, dl_year = year\<rparr>
      in if filepath \<noteq> []
         then (case DetectorsLocation_import_from_file self filepath w of
                 (Some e, self') \<Rightarrow> Inl e
               | (None, self') \<Rightarrow> Inr self')
         else Inr self)"

text \<open>
  The loop of \<^verbatim>\<open>DetectorsLocation.__eq__\<close> over the keys of
  \<^verbatim>\<open>self.detectors_location_dict\<close>; \<^verbatim>\<open>other.detectors_location_dict\<close> is read
  in the body, so only when there is a key.
\<close>

fun DetectorsLocation_eq_loop ::
    "DetectorId list \<Rightarrow> location_dict \<Rightarrow> location_dict option \<Rightarrow> py_error + bool" where
  "DetectorsLocation_eq_loop [] self_dict other_dict = Inr True"
| "DetectorsLocation_eq_loop (key # keys) self_dict other_dict =
     (case other_dict of
        None \<Rightarrow> Inl AttributeError
      | Some od \<Rightarrow>
          (case map_of od key of
             Some otherVal \<Rightarrow>
               (case map_of self_dict key of
                  None \<Rightarrow> Inl KeyError
                | Some selfVal \<Rightarrow>
                    if \<not> (fst selfVal = fst otherVal
                          \<and> float_eq (point_x (snd selfVal)) (point_x (snd otherVal))
                          \<and> float_eq (point_y (snd selfVal)) (point_y (snd otherVal)))
                    then Inr False
                    else DetectorsLocation_eq_loop keys self_dict other_dict)
           | None \<Rightarrow> Inr False))"

definition DetectorsLocation_eq ::
    "DetectorsLocation \<Rightarrow> DetectorsLocation \<Rightarrow> py_error + bool" where
  "DetectorsLocation_eq self other =
     (if dl_year self \<noteq> dl_year other then Inr False
      else case detectors_location_dict self of
             None \<Rightarrow> Inl AttributeError
           | Some sd \<Rightarrow>
               DetectorsLocation_eq_loop (map fst sd) sd (detectors_location_dict other))"

subsubsection \<open>Attribute access and comparison of list elements\<close>

text \<open>
  The \<^verbatim>\<open>__eq__\<close> methods of the three list-based classes read attributes of the
  list elements. Reading \<^verbatim>\<open>v.a\<close> raises \<^verbatim>\<open>AttributeError\<close> unless \<open>v\<close> is an
  instance of a class that has the attribute \<^verbatim>\<open>a\<close>.
\<close>

fun getattr_detector_id :: "pyval \<Rightarrow> py_error + DetectorId" where
  "getattr_detector_id (PyDetectorFlowData r) = Inr (dfd_detector_id r)"
| "getattr_detector_id (PyDetectorIdToRoadSection r) = Inr (ditrs_detector_id r)"
| "getattr_detector_id (PyOutputFlowData r) = Inr (ofd_detector_id r)"
| "getattr_detector_id v = Inl AttributeError"

fun getattr_direction :: "pyval \<Rightarrow> py_error + Direction" where
  "getattr_direction (PyDetectorFlowData r) = Inr (dfd_direction r)"
| "getattr_direction v = Inl AttributeError"

fun getattr_flow_data :: "pyval \<Rightarrow> py_error + flow_dict" where
  "getattr_flow_data (PyDetectorFlowData r) = Inr (dfd_flow_data r)"
| "getattr_flow_data (PyOutputFlowData r) = Inr (ofd_flow_data r)"
| "getattr_flow_data v = Inl AttributeError"

fun getattr_name :: "pyval \<Rightarrow> py_error + string" where
  "getattr_name (PyDetectorFlowData r) = Inr (dfd_name r)"
| "getattr_name v = Inl AttributeError"

fun getattr_year :: "pyval \<Rightarrow> py_error + int" where
  "getattr_year (PyDetectorFlowData r) = Inr (dfd_year r)"
| "getattr_year v = Inl AttributeError"

fun getattr_section_id :: "pyval \<Rightarrow> py_error + SectionId" where
  "getattr_section_id (PyDetectorIdToRoadSection r) = Inr (ditrs_section_id r)"
| "getattr_section_id (PyOutputFlowData r) = Inr (ofd_section_id r)"
| "getattr_section_id v = Inl AttributeError"

text \<open>
  \<^verbatim>\<open>a == b\<close> on two \<^verbatim>\<open>flow_data\<close> dictionaries: the same number of entries, and
  every key of \<open>a\<close> is a key of \<open>b\<close> with an equal float. (Before it compares two
  values with \<^verbatim>\<open>==\<close>, Python's dictionary comparison tests whether they are one and
  the same object; \<open>dict_eq\<close> is the comparison of two dictionaries that share no
  float object, as an object and one rebuilt by \<^verbatim>\<open>pickle.load\<close> never do.)
\<close>

fun dict_values_match :: "flow_dict \<Rightarrow> flow_dict \<Rightarrow> bool" where
  "dict_values_match [] b = True"
| "dict_values_match ((k, v) # a) b =
     (case map_of b k of
        None \<Rightarrow> False
      | Some v' \<Rightarrow> float_eq v v' \<and> dict_values_match a b)"

definition dict_eq :: "flow_dict \<Rightarrow> flow_dict \<Rightarrow> bool" where
  "dict_eq a b \<longleftrightarrow> length a = length b \<and> dict_values_match a b"

text \<open>
  \<open>attr_ne get ne this other\<close> is \<^verbatim>\<open>this.a != other.a\<close>: both attributes are read,
  left one first, then compared. \<open>py_or\<close> is \<^verbatim>\<open>or\<close>: the right operand is not
  evaluated, and so cannot raise, when the left one is true.
\<close>

definition attr_ne ::
    "(pyval \<Rightarrow> py_error + 'a) \<Rightarrow> ('a \<Rightarrow> 'a \<Rightarrow> bool) \<Rightarrow> pyval \<Rightarrow> pyval \<Rightarrow> py_error + bool" where
  "attr_ne get ne this other =
     (case get this of
        Inl e \<Rightarrow> Inl e
      | Inr a \<Rightarrow> (case get other of Inl e \<Rightarrow> Inl e | Inr b \<Rightarrow> Inr (ne a b)))"

definition py_or :: "py_error + bool \<Rightarrow> py_error + bool \<Rightarrow> py_error + bool" where
  "py_or a b = (case a of Inl e \<Rightarrow> Inl e | Inr c \<Rightarrow> if c then Inr True else b)"

subsubsection \<open>GroundFlowData\<close>

definition GroundFlowData_export_to_file ::
    "GroundFlowData \<Rightarrow> string \<Rightarrow> world \<Rightarrow> py_error option \<times> world" where
  "GroundFlowData_export_to_file self filepath w =
     (case detector_flow_data self of
        None \<Rightarrow> (Some AttributeError, w)
      | Some l \<Rightarrow>
          if length l = 0
          then (Some (Exception ''GroundFlowData has no data. Export aborted.''), w)
          else
            let w1 = (if path_exists w filepath
                      then warnings_warn ''File already exists at filepath. Overwriting file.'' w
                      else w)
            in (case open_wb w1 filepath of
                  Inl e \<Rightarrow> (Some e, w1)
                | Inr w2 \<Rightarrow> (None, pickle_dump (PyList l) filepath w2)))"

definition GroundFlowData_import_from_file ::
    "GroundFlowData \<Rightarrow> string \<Rightarrow> world \<Rightarrow> py_error option \<times> GroundFlowData" where
  "GroundFlowData_import_from_file self filepath w =
     (case open_rb w filepath of
        Inl e \<Rightarrow> (Some e, self)
      | Inr file0 \<Rightarrow>
          (case pickle_load file0 of
             Inl e \<Rightarrow> (Some e, self)
           | Inr (imported_data, file1) \<Rightarrow>
               (case imported_data of
                  PyList l \<Rightarrow>
                    (case l of
                       [] \<Rightarrow> (Some IndexError, self)
                     | first # _ \<Rightarrow>
                         if isinstance_DetectorFlowData first
                         then (None, self\<lparr>detector_flow_data := Some l\<rparr>)
                         else (Some incorrect_data_type, self))
                | _ \<Rightarrow> (Some incorrect_data_type, self))))"

definition GroundFlowData_init :: "string \<Rightarrow> world \<Rightarrow> py_error + GroundFlowData" where
  "GroundFlowData_init filepath w =
     (let self = \<lparr>detector_flow_data = None\<rparr>
      in if filepath \<noteq> []
         then (case GroundFlowData_import_from_file self filepath w of
                 (Some e, self') \<Rightarrow> Inl e
               | (None, self') \<Rightarrow> Inr self')
         else Inr self)"

text \<open>The condition of the \<^verbatim>\<open>if\<close> in the loop of \<^verbatim>\<open>GroundFlowData.__eq__\<close>.\<close>

definition GroundFlowData_differ :: "pyval \<Rightarrow> pyval \<Rightarrow> py_error + bool" where
  "GroundFlowData_differ this_detector other_detector =
     py_or (attr_ne getattr_detector_id (\<lambda>a b. a \<noteq> b) this_detector other_detector)
    (py_or (attr_ne getattr_direction (\<lambda>a b. a \<noteq> b) this_detector other_detector)
    (py_or (attr_ne getattr_flow_data (\<lambda>a b. \<not> dict_eq a b) this_detector other_detector)
    (py_or (attr_ne getattr_name (\<lambda>a b. a \<noteq> b) this_detector other_detector)
           (attr_ne getattr_year (\<lambda>a b. a \<noteq> b) this_detector other_detector))))"

text \<open>
  The loop of \<^verbatim>\<open>GroundFlowData.__eq__\<close> over the indices of
  \<^verbatim>\<open>self.detector_flow_data\<close>, with the variable \<^verbatim>\<open>equality\<close>. It has no early
  exit. (The lists have the same length when the loop starts; an index beyond the other
  list would raise \<^verbatim>\<open>IndexError\<close>.)
\<close>

fun GroundFlowData_eq_loop :: "pyval list \<Rightarrow> pyval list \<Rightarrow> bool \<Rightarrow> py_error + bool" where
  "GroundFlowData_eq_loop [] others equality = Inr equality"
| "GroundFlowData_eq_loop (this_detector # rest) [] equality = Inl IndexError"
| "GroundFlowData_eq_loop (this_detector # rest) (other_detector # others) equality =
     (case GroundFlowData_differ this_detector other_detector of
        Inl e \<Rightarrow> Inl e
      | Inr c \<Rightarrow> GroundFlowData_eq_loop rest others (if c then False else equality))"

definition GroundFlowData_eq :: "GroundFlowData \<Rightarrow> GroundFlowData \<Rightarrow> py_error + bool" where
  "GroundFlowData_eq self other =
     (case detector_flow_data self of
        None \<Rightarrow> Inl AttributeError
      | Some sl \<Rightarrow>
          (case detector_flow_data other of
             None \<Rightarrow> Inl AttributeError
           | Some ol \<Rightarrow>
               if length sl \<noteq> length ol then Inr False
               else GroundFlowData_eq_loop sl ol True))"

subsubsection \<open>DetectorIdToRoadSections\<close>

definition DetectorIdToRoadSections_export_to_file ::
    "DetectorIdToRoadSections \<Rightarrow> string \<Rightarrow> world \<Rightarrow> py_error option \<times> world" where
  "DetectorIdToRoadSections_export_to_file self filepath w =
     (case aimsun_detector_locations self of
        None \<Rightarrow> (Some AttributeError, w)
      | Some l \<Rightarrow>
          if length l = 0
          then (Some (Exception (''DetectorIdToRoadSections has no data.'' @ ''Export aborted.'')), w)
          else
            let w1 = (if path_exists w filepath
                      then warnings_warn ''File already exists at filepath. Overwriting file.'' w
                      else w)
            in (case open_wb w1 filepath of
                  Inl e \<Rightarrow> (Some e, w1)
                | Inr w2 \<Rightarrow> (None, pickle_dump (PyList l) filepath w2)))"

definition DetectorIdToRoadSections_import_from_file ::
    "DetectorIdToRoadSections \<Rightarrow> string \<Rightarrow> world
       \<Rightarrow> py_error option \<times> DetectorIdToRoadSections" where
  "DetectorIdToRoadSections_import_from_file self filepath w =
     (case open_rb w filepath of
        Inl e \<Rightarrow> (Some e, self)
      | Inr file0 \<Rightarrow>
          (case pickle_load file0 of
             Inl e \<Rightarrow> (Some e, self)
           | Inr (imported_aimsun_detector_locations, file1) \<Rightarrow>
               (case imported_aimsun_detector_locations of
                  PyList l \<Rightarrow>
                    (case l of
                       [] \<Rightarrow> (Some IndexError, self)
                     | first # _ \<Rightarrow>
                         if isinstance_DetectorIdToRoadSection first
                         then (None, self\<lparr>aimsun_detector_locations := Some l\<rparr>)
                         else (Some incorrect_data_type, self))
                | _ \<Rightarrow> (Some incorrect_data_type, self))))"

definition DetectorIdToRoadSections_init ::
    "string \<Rightarrow> world \<Rightarrow> py_error + DetectorIdToRoadSections" where
  "DetectorIdToRoadSections_init filepath w =
     (let self = \<lparr>aimsun_detector_locations = None\<rparr>
      in if filepath \<noteq> []
         then (case DetectorIdToRoadSections_import_from_file self filepath w of
                 (Some e, self') \<Rightarrow> Inl e
               | (None, self') \<Rightarrow> Inr self')
         else Inr self)"

definition DetectorIdToRoadSections_differ :: "pyval \<Rightarrow> pyval \<Rightarrow> py_error + bool" where
  "DetectorIdToRoadSections_differ selfVals otherVals =
     py_or (attr_ne getattr_detector_id (\<lambda>a b. a \<noteq> b) selfVals otherVals)
           (attr_ne getattr_section_id (\<lambda>a b. a \<noteq> b) selfVals otherVals)"

text \<open>
  The loop of \<^verbatim>\<open>DetectorIdToRoadSections.__eq__\<close>: it returns \<^verbatim>\<open>False\<close> at the
  first index where the elements differ.
\<close>

fun DetectorIdToRoadSections_eq_loop :: "pyval list \<Rightarrow> pyval list \<Rightarrow> py_error + bool" where
  "DetectorIdToRoadSections_eq_loop [] others = Inr True"
| "DetectorIdToRoadSections_eq_loop (selfVals # rest) [] = Inl IndexError"
| "DetectorIdToRoadSections_eq_loop (selfVals # rest) (otherVals # others) =
     (case DetectorIdToRoadSections_differ selfVals otherVals of
        Inl e \<Rightarrow> Inl e
      | Inr c \<Rightarrow> if c then Inr False else DetectorIdToRoadSections_eq_loop rest others)"

definition DetectorIdToRoadSections_eq ::
    "DetectorIdToRoadSections \<Rightarrow> DetectorIdToRoadSections \<Rightarrow> py_error + bool" where
  "DetectorIdToRoadSections_eq self other =
     (case aimsun_detector_locations self of
        None \<Rightarrow> Inl AttributeError
      | Some sl \<Rightarrow>
          (case aimsun_detector_locations other of
             None \<Rightarrow> Inl AttributeError
           | Some ol \<Rightarrow>
               if length sl \<noteq> length ol then Inr False
               else DetectorIdToRoadSections_eq_loop sl ol))"

subsubsection \<open>OutputFlowDataSet\<close>

text \<open>\<^verbatim>\<open>export_to_file\<close> writes \<^verbatim>\<open>flow_data_set\<close> only, and the import reads it only.\<close>

definition OutputFlowDataSet_export_to_file ::
    "OutputFlowDataSet \<Rightarrow> string \<Rightarrow> world \<Rightarrow> py_error option \<times> world" where
  "OutputFlowDataSet_export_to_file self filepath w =
     (case flow_data_set self of
        None \<Rightarrow> (Some AttributeError, w)
      | Some l \<Rightarrow>
          if length l = 0
          then (Some (Exception ''OutputFlowDataSet has no data. Export aborted.''), w)
          else
            let w1 = (if path_exists w filepath
                      then warnings_warn ''File already exists at filepath. Overwriting file.'' w
                      else w)
            in (case open_wb w1 filepath of
                  Inl e \<Rightarrow> (Some e, w1)
                | Inr w2 \<Rightarrow> (None, pickle_dump (PyList l) filepath w2)))"

definition OutputFlowDataSet_import_from_file ::
    "OutputFlowDataSet \<Rightarrow> string \<Rightarrow> world \<Rightarrow> py_error option \<times> OutputFlowDataSet" where
  "OutputFlowDataSet_import_from_file self filepath w =
     (case open_rb w filepath of
        Inl e \<Rightarrow> (Some e, self)
      | Inr file0 \<Rightarrow>
          (case pickle_load file0 of
             Inl e \<Rightarrow> (Some e, self)
           | Inr (imported_flow_data_set, file1) \<Rightarrow>
               (case imported_flow_data_set of
                  PyList l \<Rightarrow>
                    (case l of
                       [] \<Rightarrow> (Some IndexError, self)
                     | first # _ \<Rightarrow>
                         if isinstance_OutputFlowData first
                         then (None, self\<lparr>flow_data_set := Some l\<rparr>)
                         else (Some incorrect_data_type, self))
                | _ \<Rightarrow> (Some incorrect_data_type, self))))"

definition OutputFlowDataSet_init :: "string \<Rightarrow> world \<Rightarrow> py_error + OutputFlowDataSet" where
  "OutputFlowDataSet_init filepath w =
     (let self = \<lparr>flow_data_set = None, ofds_year = None\<rparr>
      in if filepath \<noteq> []
         then (case OutputFlowDataSet_import_from_file self filepath w of
                 (Some e, self') \<Rightarrow> Inl e
               | (None, self') \<Rightarrow> Inr self')
         else Inr self)"

definition OutputFlowDataSet_differ :: "pyval \<Rightarrow> pyval \<Rightarrow> py_error + bool" where
  "OutputFlowDataSet_differ selfVals otherVals =
     py_or (attr_ne getattr_detector_id (\<lambda>a b. a \<noteq> b) selfVals otherVals)
    (py_or (attr_ne getattr_flow_data (\<lambda>a b. \<not> dict_eq a b) selfVals otherVals)
           (attr_ne getattr_section_id (\<lambda>a b. a \<noteq> b) selfVals otherVals))"

fun OutputFlowDataSet_eq_loop :: "pyval list \<Rightarrow> pyval list \<Rightarrow> py_error + bool" where
  "OutputFlowDataSet_eq_loop [] others = Inr True"
| "OutputFlowDataSet_eq_loop (selfVals # rest) [] = Inl IndexError"
| "OutputFlowDataSet_eq_loop (selfVals # rest) (otherVals # others) =
     (case OutputFlowDataSet_differ selfVals otherVals of
        Inl e \<Rightarrow> Inl e
      | Inr c \<Rightarrow> if c then Inr False else OutputFlowDataSet_eq_loop rest others)"

definition OutputFlowDataSet_eq ::
    "OutputFlowDataSet \<Rightarrow> OutputFlowDataSet \<Rightarrow> py_error + bool" where
  "OutputFlowDataSet_eq self other =
     (case flow_data_set self of
        None \<Rightarrow> Inl AttributeError
      | Some sl \<Rightarrow>
          (case flow_data_set other of
             None \<Rightarrow> Inl AttributeError
           | Some ol \<Rightarrow>
               if length sl \<noteq> length ol then Inr False
               else OutputFlowDataSet_eq_loop sl ol))"

subsection \<open>Predicates used in the statements\<close>

text \<open>
  \<^verbatim>\<open>isinstance(v, list)\<close>, \<^verbatim>\<open>isinstance(v, dict)\<close> and \<^verbatim>\<open>isinstance(v, int)\<close>, the
  checks that the imports make by cases on the deserialized object.
\<close>

fun isinstance_list :: "pyval \<Rightarrow> bool" where
  "isinstance_list (PyList l) = True"
| "isinstance_list v = False"

fun isinstance_dict :: "pyval \<Rightarrow> bool" where
  "isinstance_dict (PyDict d) = True"
| "isinstance_dict v = False"

fun isinstance_int :: "pyval \<Rightarrow> bool" where
  "isinstance_int (PyInt i) = True"
| "isinstance_int v = False"

text \<open>
  The instances for which export followed by import gives an equal object: every element
  of the list is an instance of the element class, and no float that \<^verbatim>\<open>__eq__\<close>
  compares is a NaN. (That the keys of a \<^verbatim>\<open>flow_data\<close> are pairwise distinct says
  only that the list stands for a dictionary.)
\<close>

definition nan_free_flow_dict :: "flow_dict \<Rightarrow> bool" where
  "nan_free_flow_dict fd \<longleftrightarrow>
     distinct (map fst fd) \<and> list_all (\<lambda>kv. \<not> float_isnan (snd kv)) fd"

definition nan_free_location_dict :: "location_dict \<Rightarrow> bool" where
  "nan_free_location_dict d \<longleftrightarrow>
     list_all (\<lambda>kv. \<not> float_isnan (point_x (snd (snd kv)))
                  \<and> \<not> float_isnan (point_y (snd (snd kv)))) d"

fun nan_free_DetectorFlowData :: "pyval \<Rightarrow> bool" where
  "nan_free_DetectorFlowData (PyDetectorFlowData r) = nan_free_flow_dict (dfd_flow_data r)"
| "nan_free_DetectorFlowData v = False"

fun nan_free_OutputFlowData :: "pyval \<Rightarrow> bool" where
  "nan_free_OutputFlowData (PyOutputFlowData r) = nan_free_flow_dict (ofd_flow_data r)"
| "nan_free_OutputFlowData v = False"

section \<open>Properties\<close>

subsection \<open>Auxiliary facts\<close>

text \<open>
  A float that is not a NaN equals itself; so does a dictionary without NaN values, and so
  do the elements of well-formed lists, along the loops of the \<^verbatim>\<open>__eq__\<close> methods.
\<close>

lemma float_eq_refl: "\<not> float_isnan a \<Longrightarrow> float_eq a a"
  by (simp add: float_eq_def)

lemma dict_values_match_subset:
  "distinct (map fst b) \<Longrightarrow> set a \<subseteq> set b \<Longrightarrow> list_all (\<lambda>kv. \<not> float_isnan (snd kv)) a
     \<Longrightarrow> dict_values_match a b"
proof (induction a)
  case Nil
  then show ?case by simp
next
  case (Cons kv a)
  obtain k v where kv: "kv = (k, v)" by (cases kv)
  from Cons.prems kv have "(k, v) \<in> set b" by simp
  with Cons.prems(1) have "map_of b k = Some v" by simp
  moreover from Cons.prems kv have "float_eq v v" by (simp add: float_eq_refl)
  moreover from Cons have "dict_values_match a b" by simp
  ultimately show ?case using kv by simp
qed

lemma dict_eq_refl: "nan_free_flow_dict a \<Longrightarrow> dict_eq a a"
  by (simp add: nan_free_flow_dict_def dict_eq_def dict_values_match_subset)

lemma GroundFlowData_differ_refl:
  "nan_free_DetectorFlowData v \<Longrightarrow> GroundFlowData_differ v v = Inr False"
  by (cases v) (simp_all add: GroundFlowData_differ_def attr_ne_def py_or_def dict_eq_refl)

lemma GroundFlowData_eq_loop_refl:
  "list_all nan_free_DetectorFlowData l \<Longrightarrow> GroundFlowData_eq_loop l l equality = Inr equality"
  by (induction l) (simp_all add: GroundFlowData_differ_refl)

lemma DetectorIdToRoadSections_differ_refl:
  "isinstance_DetectorIdToRoadSection v \<Longrightarrow> DetectorIdToRoadSections_differ v v = Inr False"
  by (cases v) (simp_all add: DetectorIdToRoadSections_differ_def attr_ne_def py_or_def)

lemma DetectorIdToRoadSections_eq_loop_refl:
  "list_all isinstance_DetectorIdToRoadSection l \<Longrightarrow> DetectorIdToRoadSections_eq_loop l l = Inr True"
  by (induction l) (simp_all add: DetectorIdToRoadSections_differ_refl)

lemma OutputFlowDataSet_differ_refl:
  "nan_free_OutputFlowData v \<Longrightarrow> OutputFlowDataSet_differ v v = Inr False"
  by (cases v) (simp_all add: OutputFlowDataSet_differ_def attr_ne_def py_or_def dict_eq_refl)

lemma OutputFlowDataSet_eq_loop_refl:
  "list_all nan_free_OutputFlowData l \<Longrightarrow> OutputFlowDataSet_eq_loop l l = Inr True"
  by (induction l) (simp_all add: OutputFlowDataSet_differ_refl)

lemma DetectorsLocation_eq_loop_refl:
  "nan_free_location_dict d \<Longrightarrow> set keys \<subseteq> fst ` set d
     \<Longrightarrow> DetectorsLocation_eq_loop keys d (Some d) = Inr True"
proof (induction keys)
  case Nil
  then show ?case by simp
next
  case (Cons key keys)
  from Cons.prems(2) have "key \<in> fst ` set d" by simp
  then obtain v where v: "map_of d key = Some v"
    by (metis domD dom_map_of_conv_image_fst)
  then have "(key, v) \<in> set d" by (rule map_of_SomeD)
  with Cons.prems(1) have "\<not> float_isnan (point_x (snd v))" "\<not> float_isnan (point_y (snd v))"
    by (auto simp add: nan_free_location_dict_def list_all_iff)
  then have "float_eq (point_x (snd v)) (point_x (snd v))" "float_eq (point_y (snd v)) (point_y (snd v))"
    by (simp_all add: float_eq_refl)
  moreover from Cons have "DetectorsLocation_eq_loop keys d (Some d) = Inr True" by simp
  ultimately show ?case using v by simp
qed

text \<open>
  What \<^verbatim>\<open>pickle.load\<close> and \<^verbatim>\<open>open\<close> returned, read backwards; a successful
  import of a \<^verbatim>\<open>DetectorsLocation\<close> has read a dictionary and an integer.
\<close>

lemmas world_ops = path_exists_def warnings_warn_def open_wb_def pickle_dump_def open_rb_def

lemma pickle_load_Inr:
  "pickle_load content = Inr (v, rest) \<longleftrightarrow> content = Pickle v # rest"
  by (cases content rule: pickle_load.cases) auto

lemma DetectorsLocation_import_success:
  "fst (DetectorsLocation_import_from_file dl filepath w) = None \<Longrightarrow>
     \<exists>d y rest. open_rb w filepath = Inr (Pickle (PyDict d) # Pickle (PyInt y) # rest)
       \<and> snd (DetectorsLocation_import_from_file dl filepath w)
           = dl\<lparr>detectors_location_dict := Some d, dl_year := y\<rparr>"
  by (simp add: DetectorsLocation_import_from_file_def pickle_load_Inr
      split: sum.split_asm prod.split_asm pyval.split_asm)

lemma open_rb_Inr: "open_rb w filepath = Inr content \<Longrightarrow> files w filepath = Some content"
  by (simp add: open_rb_def split: if_splits option.splits)

subsection \<open>Export followed by import\<close>

text \<open>
  An export does not return normally at every path: where no file exists and the directory
  is missing, \<^verbatim>\<open>open\<close> raises \<^verbatim>\<open>FileNotFoundError\<close>, and nothing is written.
\<close>

lemma export_missing_directory:
  "files w filepath = None \<and> filepath \<in> no_directory w \<and> l \<noteq> [] \<Longrightarrow>
     GroundFlowData_export_to_file \<lparr>detector_flow_data = Some l\<rparr> filepath w
       = (Some FileNotFoundError, w)
   \<and> DetectorIdToRoadSections_export_to_file \<lparr>aimsun_detector_locations = Some l\<rparr> filepath w
       = (Some FileNotFoundError, w)
   \<and> OutputFlowDataSet_export_to_file \<lparr>flow_data_set = Some l, ofds_year = y\<rparr> filepath w
       = (Some FileNotFoundError, w)"
  by (simp add: GroundFlowData_export_to_file_def DetectorIdToRoadSections_export_to_file_def
      OutputFlowDataSet_export_to_file_def path_exists_def open_wb_def)

lemma export_missing_directory_example:
  "GroundFlowData_export_to_file \<lparr>detector_flow_data = Some [PyNone]\<rparr> ''nodir/9.txt''
      \<lparr>files = Map.empty, warnings = [], no_directory = {''nodir/9.txt''}\<rparr>
    = (Some FileNotFoundError,
       \<lparr>files = Map.empty, warnings = [], no_directory = {''nodir/9.txt''}\<rparr>)"
  by (simp add: GroundFlowData_export_to_file_def path_exists_def open_wb_def)

text \<open>
  After an export that returned normally, the constructor rebuilds the exported instance
  field by field (all but the \<^verbatim>\<open>year\<close> of an \<^verbatim>\<open>OutputFlowDataSet\<close>, which is
  neither written nor read), and \<^verbatim>\<open>__eq__\<close> finds it equal to the exported one.
\<close>

lemma export_then_import:
  "(detectors_location_dict dl = Some d \<and> nan_free_location_dict d
      \<and> DetectorsLocation_export_to_file dl filepath w = (None, w')
      \<longrightarrow> DetectorsLocation_init year filepath w' = Inr dl
          \<and> DetectorsLocation_eq dl dl = Inr True)
 \<and> (detector_flow_data gfd = Some l \<and> list_all nan_free_DetectorFlowData l
      \<and> GroundFlowData_export_to_file gfd filepath w = (None, w')
      \<longrightarrow> GroundFlowData_init filepath w' = Inr gfd
          \<and> GroundFlowData_eq gfd gfd = Inr True)
 \<and> (aimsun_detector_locations ditrs = Some l \<and> list_all isinstance_DetectorIdToRoadSection l
      \<and> DetectorIdToRoadSections_export_to_file ditrs filepath w = (None, w')
      \<longrightarrow> DetectorIdToRoadSections_init filepath w' = Inr ditrs
          \<and> DetectorIdToRoadSections_eq ditrs ditrs = Inr True)
 \<and> (flow_data_set ofds = Some l \<and> list_all nan_free_OutputFlowData l
      \<and> OutputFlowDataSet_export_to_file ofds filepath w = (None, w')
      \<longrightarrow> OutputFlowDataSet_init filepath w' = Inr (ofds\<lparr>ofds_year := None\<rparr>)
          \<and> OutputFlowDataSet_eq (ofds\<lparr>ofds_year := None\<rparr>) ofds = Inr True)"
proof (intro conjI impI)
  assume a: "detectors_location_dict dl = Some d \<and> nan_free_location_dict d
      \<and> DetectorsLocation_export_to_file dl filepath w = (None, w')"
  then have d: "d \<noteq> []" and p: "filepath \<noteq> []"
    by (auto simp add: DetectorsLocation_export_to_file_def Let_def open_wb_def split: if_splits)
  with a have w': "files w' filepath = Some [Pickle (PyDict d), Pickle (PyInt (dl_year dl))]"
    by (auto simp add: DetectorsLocation_export_to_file_def Let_def world_ops split: if_splits)
  with a p show "DetectorsLocation_init year filepath w' = Inr dl"
    by (simp add: DetectorsLocation_init_def DetectorsLocation_import_from_file_def open_rb_def)
  from a show "DetectorsLocation_eq dl dl = Inr True"
    by (simp add: DetectorsLocation_eq_def DetectorsLocation_eq_loop_refl)
next
  assume a: "detector_flow_data gfd = Some l \<and> list_all nan_free_DetectorFlowData l
      \<and> GroundFlowData_export_to_file gfd filepath w = (None, w')"
  then have p: "filepath \<noteq> []" and w': "files w' filepath = Some [Pickle (PyList l)]"
    by (auto simp add: GroundFlowData_export_to_file_def Let_def world_ops split: if_splits)
  from a obtain v vs where l: "l = v # vs"
    by (cases l) (auto simp add: GroundFlowData_export_to_file_def)
  with a have "nan_free_DetectorFlowData v" by simp
  then have "isinstance_DetectorFlowData v" by (cases v) simp_all
  with a p w' l show "GroundFlowData_init filepath w' = Inr gfd"
    by (simp add: GroundFlowData_init_def GroundFlowData_import_from_file_def open_rb_def)
  from a show "GroundFlowData_eq gfd gfd = Inr True"
    by (simp add: GroundFlowData_eq_def GroundFlowData_eq_loop_refl)
next
  assume a: "aimsun_detector_locations ditrs = Some l \<and> list_all isinstance_DetectorIdToRoadSection l
      \<and> DetectorIdToRoadSections_export_to_file ditrs filepath w = (None, w')"
  then have p: "filepath \<noteq> []" and w': "files w' filepath = Some [Pickle (PyList l)]"
    by (auto simp add: DetectorIdToRoadSections_export_to_file_def Let_def world_ops split: if_splits)
  from a obtain v vs where l: "l = v # vs"
    by (cases l) (auto simp add: DetectorIdToRoadSections_export_to_file_def)
  with a p w' show "DetectorIdToRoadSections_init filepath w' = Inr ditrs"
    by (simp add: DetectorIdToRoadSections_init_def DetectorIdToRoadSections_import_from_file_def open_rb_def)
  from a show "DetectorIdToRoadSections_eq ditrs ditrs = Inr True"
    by (simp add: DetectorIdToRoadSections_eq_def DetectorIdToRoadSections_eq_loop_refl)
next
  assume a: "flow_data_set ofds = Some l \<and> list_all nan_free_OutputFlowData l
      \<and> OutputFlowDataSet_export_to_file ofds filepath w = (None, w')"
  then have p: "filepath \<noteq> []" and w': "files w' filepath = Some [Pickle (PyList l)]"
    by (auto simp add: OutputFlowDataSet_export_to_file_def Let_def world_ops split: if_splits)
  from a obtain v vs where l: "l = v # vs"
    by (cases l) (auto simp add: OutputFlowDataSet_export_to_file_def)
  with a have "nan_free_OutputFlowData v" by simp
  then have "isinstance_OutputFlowData v" by (cases v) simp_all
  with a p w' l show "OutputFlowDataSet_init filepath w' = Inr (ofds\<lparr>ofds_year := None\<rparr>)"
    by (simp add: OutputFlowDataSet_init_def OutputFlowDataSet_import_from_file_def open_rb_def)
  from a show "OutputFlowDataSet_eq (ofds\<lparr>ofds_year := None\<rparr>) ofds = Inr True"
    by (simp add: OutputFlowDataSet_eq_def OutputFlowDataSet_eq_loop_refl)
qed

text \<open>
  Claim C1, as amended. Let \<open>x\<close> be a populated instance of one of the four classes
  that is well typed (every element of the list is an instance of the element class with
  all its annotated attributes assigned; the mapping has integer keys and pairs of a
  \<^verbatim>\<open>Direction\<close> and a \<^verbatim>\<open>Point\<close> as values) and in which no coordinate and no flow
  volume is a NaN. If \<^verbatim>\<open>x.export_to_file(filepath)\<close> returns normally, the constructor
  called with that path returns an object \<open>x'\<close> for which \<^verbatim>\<open>x' == x\<close> is true. For
  \<^verbatim>\<open>DetectorsLocation\<close> this holds for every \<^verbatim>\<open>year\<close> passed to the constructor.
\<close>

theorem export_import_roundtrip:
  "(detectors_location_dict dl = Some d \<and> nan_free_location_dict d
      \<and> DetectorsLocation_export_to_file dl filepath w = (None, w')
      \<longrightarrow> (\<exists>dl'. DetectorsLocation_init year filepath w' = Inr dl'
                \<and> DetectorsLocation_eq dl' dl = Inr True))
 \<and> (detector_flow_data gfd = Some l \<and> list_all nan_free_DetectorFlowData l
      \<and> GroundFlowData_export_to_file gfd filepath w = (None, w')
      \<longrightarrow> (\<exists>gfd'. GroundFlowData_init filepath w' = Inr gfd'
                \<and> GroundFlowData_eq gfd' gfd = Inr True))
 \<and> (aimsun_detector_locations ditrs = Some l \<and> list_all isinstance_DetectorIdToRoadSection l
      \<and> DetectorIdToRoadSections_export_to_file ditrs filepath w = (None, w')
      \<longrightarrow> (\<exists>ditrs'. DetectorIdToRoadSections_init filepath w' = Inr ditrs'
                \<and> DetectorIdToRoadSections_eq ditrs' ditrs = Inr True))
 \<and> (flow_data_set ofds = Some l \<and> list_all nan_free_OutputFlowData l
      \<and> OutputFlowDataSet_export_to_file ofds filepath w = (None, w')
      \<longrightarrow> (\<exists>ofds'. OutputFlowDataSet_init filepath w' = Inr ofds'
                \<and> OutputFlowDataSet_eq ofds' ofds = Inr True))"
proof (intro conjI impI)
  assume "detectors_location_dict dl = Some d \<and> nan_free_location_dict d
      \<and> DetectorsLocation_export_to_file dl filepath w = (None, w')"
  with export_then_import [of dl d filepath w w' year]
  show "\<exists>dl'. DetectorsLocation_init year filepath w' = Inr dl'
      \<and> DetectorsLocation_eq dl' dl = Inr True"
    by blast
next
  assume "detector_flow_data gfd = Some l \<and> list_all nan_free_DetectorFlowData l
      \<and> GroundFlowData_export_to_file gfd filepath w = (None, w')"
  with export_then_import [of _ _ filepath w w' _ gfd l]
  show "\<exists>gfd'. GroundFlowData_init filepath w' = Inr gfd'
      \<and> GroundFlowData_eq gfd' gfd = Inr True"
    by blast
next
  assume "aimsun_detector_locations ditrs = Some l
      \<and> list_all isinstance_DetectorIdToRoadSection l
      \<and> DetectorIdToRoadSections_export_to_file ditrs filepath w = (None, w')"
  with export_then_import [of _ _ filepath w w' _ _ l ditrs]
  show "\<exists>ditrs'. DetectorIdToRoadSections_init filepath w' = Inr ditrs'
      \<and> DetectorIdToRoadSections_eq ditrs' ditrs = Inr True"
    by blast
next
  assume "flow_data_set ofds = Some l \<and> list_all nan_free_OutputFlowData l
      \<and> OutputFlowDataSet_export_to_file ofds filepath w = (None, w')"
  with export_then_import [of _ _ filepath w w' _ _ l _ ofds]
  show "\<exists>ofds'. OutputFlowDataSet_init filepath w' = Inr ofds'
      \<and> OutputFlowDataSet_eq ofds' ofds = Inr True"
    by blast
qed

text \<open>
  The hypotheses of C1 at one instance of each class, exported to \<^verbatim>\<open>2.txt\<close> in an
  empty file system.
\<close>

theorem export_import_roundtrip_witness:
  "DetectorsLocation_init 1999 ''2.txt''
       \<lparr>files = [''2.txt'' \<mapsto> [Pickle (PyDict [(7, east_bound, \<lparr>point_x = 0, point_y = 0x3FF0000000000000\<rparr>)]),
                                Pickle (PyInt 2021)]], warnings = [], no_directory = {}\<rparr>
     = Inr \<lparr>detectors_location_dict = Some [(7, east_bound, \<lparr>point_x = 0, point_y = 0x3FF0000000000000\<rparr>)],
            dl_year = 2021\<rparr>
   \<and> DetectorsLocation_eq
       \<lparr>detectors_location_dict = Some [(7, east_bound, \<lparr>point_x = 0, point_y = 0x3FF0000000000000\<rparr>)],
        dl_year = 2021\<rparr>
       \<lparr>detectors_location_dict = Some [(7, east_bound, \<lparr>point_x = 0, point_y = 0x3FF0000000000000\<rparr>)],
        dl_year = 2021\<rparr> = Inr True
   \<and> GroundFlowData_init ''2.txt''
       \<lparr>files = [''2.txt'' \<mapsto> [Pickle (PyList [PyDetectorFlowData
          \<lparr>dfd_detector_id = 1, dfd_direction = north_bound,
           dfd_flow_data = [(Datetime 0, 0x3FF0000000000000)],
           dfd_name = ''a'', dfd_year = 2021\<rparr>])]], warnings = [], no_directory = {}\<rparr>
     = Inr \<lparr>detector_flow_data = Some [PyDetectorFlowData
          \<lparr>dfd_detector_id = 1, dfd_direction = north_bound,
           dfd_flow_data = [(Datetime 0, 0x3FF0000000000000)],
           dfd_name = ''a'', dfd_year = 2021\<rparr>]\<rparr>
   \<and> GroundFlowData_eq
       \<lparr>detector_flow_data = Some [PyDetectorFlowData
          \<lparr>dfd_detector_id = 1, dfd_direction = north_bound,
           dfd_flow_data = [(Datetime 0, 0x3FF0000000000000)],
           dfd_name = ''a'', dfd_year = 2021\<rparr>]\<rparr>
       \<lparr>detector_flow_data = Some [PyDetectorFlowData
          \<lparr>dfd_detector_id = 1, dfd_direction = north_bound,
           dfd_flow_data = [(Datetime 0, 0x3FF0000000000000)],
           dfd_name = ''a'', dfd_year = 2021\<rparr>]\<rparr> = Inr True
   \<and> DetectorIdToRoadSections_init ''2.txt''
       \<lparr>files = [''2.txt'' \<mapsto> [Pickle (PyList [PyDetectorIdToRoadSection
          \<lparr>ditrs_detector_id = 1, ditrs_section_id = 5\<rparr>])]], warnings = [], no_directory = {}\<rparr>
     = Inr \<lparr>aimsun_detector_locations = Some [PyDetectorIdToRoadSection
          \<lparr>ditrs_detector_id = 1, ditrs_section_id = 5\<rparr>]\<rparr>
   \<and> DetectorIdToRoadSections_eq
       \<lparr>aimsun_detector_locations = Some [PyDetectorIdToRoadSection
          \<lparr>ditrs_detector_id = 1, ditrs_section_id = 5\<rparr>]\<rparr>
       \<lparr>aimsun_detector_locations = Some [PyDetectorIdToRoadSection
          \<lparr>ditrs_detector_id = 1, ditrs_section_id = 5\<rparr>]\<rparr> = Inr True
   \<and> OutputFlowDataSet_init ''2.txt''
       \<lparr>files = [''2.txt'' \<mapsto> [Pickle (PyList [PyOutputFlowData
          \<lparr>ofd_detector_id = 1, ofd_flow_data = [(Time 0, 0x3FF0000000000000)],
           ofd_section_id = 5\<rparr>])]], warnings = [], no_directory = {}\<rparr>
     = Inr \<lparr>flow_data_set = Some [PyOutputFlowData
          \<lparr>ofd_detector_id = 1, ofd_flow_data = [(Time 0, 0x3FF0000000000000)],
           ofd_section_id = 5\<rparr>], ofds_year = None\<rparr>
   \<and> OutputFlowDataSet_eq
       \<lparr>flow_data_set = Some [PyOutputFlowData
          \<lparr>ofd_detector_id = 1, ofd_flow_data = [(Time 0, 0x3FF0000000000000)],
           ofd_section_id = 5\<rparr>], ofds_year = None\<rparr>
       \<lparr>flow_data_set = Some [PyOutputFlowData
          \<lparr>ofd_detector_id = 1, ofd_flow_data = [(Time 0, 0x3FF0000000000000)],
           ofd_section_id = 5\<rparr>], ofds_year = Some 2021\<rparr> = Inr True"
proof -
  let ?w = "\<lparr>files = Map.empty, warnings = [], no_directory = {}\<rparr>"
  let ?pt = "\<lparr>point_x = 0, point_y = 0x3FF0000000000000\<rparr>"
  let ?d = "[(7, east_bound, ?pt)]"
  let ?dl = "\<lparr>detectors_location_dict = Some ?d, dl_year = 2021\<rparr>"
  let ?l1 = "[PyDetectorFlowData \<lparr>dfd_detector_id = 1, dfd_direction = north_bound,
           dfd_flow_data = [(Datetime 0, 0x3FF0000000000000)],
           dfd_name = ''a'', dfd_year = 2021\<rparr>]"
  let ?l2 = "[PyDetectorIdToRoadSection \<lparr>ditrs_detector_id = 1, ditrs_section_id = 5\<rparr>]"
  let ?l3 = "[PyOutputFlowData \<lparr>ofd_detector_id = 1, ofd_flow_data = [(Time 0, 0x3FF0000000000000)],
           ofd_section_id = 5\<rparr>]"
  have nan: "\<not> float_isnan 0" "\<not> float_isnan 0x3FF0000000000000"
    by (simp_all add: float_isnan_def)
  have 1: "detectors_location_dict ?dl = Some ?d \<and> nan_free_location_dict ?d
      \<and> DetectorsLocation_export_to_file ?dl ''2.txt'' ?w
          = (None, \<lparr>files = [''2.txt'' \<mapsto> [Pickle (PyDict ?d), Pickle (PyInt 2021)]], warnings = [], no_directory = {}\<rparr>)"
    by (simp add: nan nan_free_location_dict_def DetectorsLocation_export_to_file_def world_ops)
  have 2: "detector_flow_data \<lparr>detector_flow_data = Some ?l1\<rparr> = Some ?l1
      \<and> list_all nan_free_DetectorFlowData ?l1
      \<and> GroundFlowData_export_to_file \<lparr>detector_flow_data = Some ?l1\<rparr> ''2.txt'' ?w
          = (None, \<lparr>files = [''2.txt'' \<mapsto> [Pickle (PyList ?l1)]], warnings = [], no_directory = {}\<rparr>)"
    by (simp add: nan nan_free_flow_dict_def GroundFlowData_export_to_file_def world_ops)
  have 3: "aimsun_detector_locations \<lparr>aimsun_detector_locations = Some ?l2\<rparr> = Some ?l2
      \<and> list_all isinstance_DetectorIdToRoadSection ?l2
      \<and> DetectorIdToRoadSections_export_to_file \<lparr>aimsun_detector_locations = Some ?l2\<rparr> ''2.txt'' ?w
          = (None, \<lparr>files = [''2.txt'' \<mapsto> [Pickle (PyList ?l2)]], warnings = [], no_directory = {}\<rparr>)"
    by (simp add: DetectorIdToRoadSections_export_to_file_def world_ops)
  have 4: "flow_data_set \<lparr>flow_data_set = Some ?l3, ofds_year = Some 2021\<rparr> = Some ?l3
      \<and> list_all nan_free_OutputFlowData ?l3
      \<and> OutputFlowDataSet_export_to_file \<lparr>flow_data_set = Some ?l3, ofds_year = Some 2021\<rparr> ''2.txt'' ?w
          = (None, \<lparr>files = [''2.txt'' \<mapsto> [Pickle (PyList ?l3)]], warnings = [], no_directory = {}\<rparr>)"
    by (simp add: nan nan_free_flow_dict_def OutputFlowDataSet_export_to_file_def world_ops)
  have i1: "DetectorsLocation_init 1999 ''2.txt''
       \<lparr>files = [''2.txt'' \<mapsto> [Pickle (PyDict ?d), Pickle (PyInt 2021)]], warnings = [], no_directory = {}\<rparr>
     = Inr ?dl"
    by (simp add: DetectorsLocation_init_def DetectorsLocation_import_from_file_def open_rb_def)
  have i2: "GroundFlowData_init ''2.txt''
       \<lparr>files = [''2.txt'' \<mapsto> [Pickle (PyList ?l1)]], warnings = [], no_directory = {}\<rparr>
     = Inr \<lparr>detector_flow_data = Some ?l1\<rparr>"
    by (simp add: GroundFlowData_init_def GroundFlowData_import_from_file_def open_rb_def)
  have i3: "DetectorIdToRoadSections_init ''2.txt''
       \<lparr>files = [''2.txt'' \<mapsto> [Pickle (PyList ?l2)]], warnings = [], no_directory = {}\<rparr>
     = Inr \<lparr>aimsun_detector_locations = Some ?l2\<rparr>"
    by (simp add: DetectorIdToRoadSections_init_def
        DetectorIdToRoadSections_import_from_file_def open_rb_def)
  have i4: "OutputFlowDataSet_init ''2.txt''
       \<lparr>files = [''2.txt'' \<mapsto> [Pickle (PyList ?l3)]], warnings = [], no_directory = {}\<rparr>
     = Inr \<lparr>flow_data_set = Some ?l3, ofds_year = None\<rparr>"
    by (simp add: OutputFlowDataSet_init_def OutputFlowDataSet_import_from_file_def open_rb_def)
  note r = export_import_roundtrip
  from r [THEN conjunct1, rule_format, OF 1, of 1999] i1
  have e1: "DetectorsLocation_eq ?dl ?dl = Inr True"
    by simp
  from r [THEN conjunct2, THEN conjunct1, rule_format, OF 2] i2
  have e2: "GroundFlowData_eq \<lparr>detector_flow_data = Some ?l1\<rparr>
      \<lparr>detector_flow_data = Some ?l1\<rparr> = Inr True"
    by simp
  from r [THEN conjunct2, THEN conjunct2, THEN conjunct1, rule_format, OF 3] i3
  have e3: "DetectorIdToRoadSections_eq \<lparr>aimsun_detector_locations = Some ?l2\<rparr>
      \<lparr>aimsun_detector_locations = Some ?l2\<rparr> = Inr True"
    by simp
  from r [THEN conjunct2, THEN conjunct2, THEN conjunct2, rule_format, OF 4] i4
  have e4: "OutputFlowDataSet_eq \<lparr>flow_data_set = Some ?l3, ofds_year = None\<rparr>
      \<lparr>flow_data_set = Some ?l3, ofds_year = Some 2021\<rparr> = Inr True"
    by simp
  from i1 i2 i3 i4 e1 e2 e3 e4 show ?thesis
    by simp
qed

text \<open>
  C1 as stated fails where a flow volume is a NaN: a \<^verbatim>\<open>GroundFlowData\<close> with one
  detector whose \<^verbatim>\<open>flow_data\<close> is \<^verbatim>\<open>{t: nan}\<close> is exported and imported without
  error, and the imported object is not equal to the exported one.
\<close>

theorem roundtrip_nan_counterexample:
  "GroundFlowData_export_to_file
      \<lparr>detector_flow_data = Some [PyDetectorFlowData
         \<lparr>dfd_detector_id = 1, dfd_direction = north_bound,
          dfd_flow_data = [(Datetime 0, 0x7FF8000000000000)],
          dfd_name = ''a'', dfd_year = 2021\<rparr>]\<rparr>
      ''2.txt'' \<lparr>files = Map.empty, warnings = [], no_directory = {}\<rparr>
    = (None, \<lparr>files = [''2.txt'' \<mapsto> [Pickle (PyList [PyDetectorFlowData
         \<lparr>dfd_detector_id = 1, dfd_direction = north_bound,
          dfd_flow_data = [(Datetime 0, 0x7FF8000000000000)],
          dfd_name = ''a'', dfd_year = 2021\<rparr>])]], warnings = [], no_directory = {}\<rparr>)
  \<and> GroundFlowData_init ''2.txt''
      \<lparr>files = [''2.txt'' \<mapsto> [Pickle (PyList [PyDetectorFlowData
         \<lparr>dfd_detector_id = 1, dfd_direction = north_bound,
          dfd_flow_data = [(Datetime 0, 0x7FF8000000000000)],
          dfd_name = ''a'', dfd_year = 2021\<rparr>])]], warnings = [], no_directory = {}\<rparr>
    = Inr \<lparr>detector_flow_data = Some [PyDetectorFlowData
         \<lparr>dfd_detector_id = 1, dfd_direction = north_bound,
          dfd_flow_data = [(Datetime 0, 0x7FF8000000000000)],
          dfd_name = ''a'', dfd_year = 2021\<rparr>]\<rparr>
  \<and> GroundFlowData_eq
      \<lparr>detector_flow_data = Some [PyDetectorFlowData
         \<lparr>dfd_detector_id = 1, dfd_direction = north_bound,
          dfd_flow_data = [(Datetime 0, 0x7FF8000000000000)],
          dfd_name = ''a'', dfd_year = 2021\<rparr>]\<rparr>
      \<lparr>detector_flow_data = Some [PyDetectorFlowData
         \<lparr>dfd_detector_id = 1, dfd_direction = north_bound,
          dfd_flow_data = [(Datetime 0, 0x7FF8000000000000)],
          dfd_name = ''a'', dfd_year = 2021\<rparr>]\<rparr>
    = Inr False"
  by (simp add: GroundFlowData_export_to_file_def GroundFlowData_init_def
      GroundFlowData_import_from_file_def GroundFlowData_eq_def GroundFlowData_differ_def
      attr_ne_def py_or_def dict_eq_def float_eq_def float_isnan_def world_ops)

subsection \<open>Equality and the size of the collections\<close>

text \<open>
  Claim C2. \<^verbatim>\<open>DetectorsLocation.__eq__\<close> does not compare the sizes of the two
  dictionaries: a dictionary with one entry is equal to a dictionary with two entries
  that holds this entry, and not the other way round.
\<close>

theorem DetectorsLocation_eq_unequal_sizes:
  "DetectorsLocation_eq
      \<lparr>detectors_location_dict = Some [(1, north_bound, \<lparr>point_x = 0, point_y = 0\<rparr>)],
       dl_year = 2021\<rparr>
      \<lparr>detectors_location_dict = Some [(1, north_bound, \<lparr>point_x = 0, point_y = 0\<rparr>),
                                       (2, east_bound, \<lparr>point_x = 0, point_y = 0\<rparr>)],
       dl_year = 2021\<rparr> = Inr True
   \<and> DetectorsLocation_eq
      \<lparr>detectors_location_dict = Some [(1, north_bound, \<lparr>point_x = 0, point_y = 0\<rparr>),
                                       (2, east_bound, \<lparr>point_x = 0, point_y = 0\<rparr>)],
       dl_year = 2021\<rparr>
      \<lparr>detectors_location_dict = Some [(1, north_bound, \<lparr>point_x = 0, point_y = 0\<rparr>)],
       dl_year = 2021\<rparr> = Inr False"
  by (simp add: DetectorsLocation_eq_def float_eq_def float_isnan_def)

text \<open>
  The three list-based classes compare the lengths first, as C2 says.
\<close>

lemma list_eq_unequal_lengths:
  "length la \<noteq> length lb \<Longrightarrow>
     GroundFlowData_eq \<lparr>detector_flow_data = Some la\<rparr> \<lparr>detector_flow_data = Some lb\<rparr>
       = Inr False
   \<and> DetectorIdToRoadSections_eq \<lparr>aimsun_detector_locations = Some la\<rparr>
         \<lparr>aimsun_detector_locations = Some lb\<rparr> = Inr False
   \<and> OutputFlowDataSet_eq \<lparr>flow_data_set = Some la, ofds_year = ya\<rparr>
         \<lparr>flow_data_set = Some lb, ofds_year = yb\<rparr> = Inr False"
  by (simp add: GroundFlowData_eq_def DetectorIdToRoadSections_eq_def OutputFlowDataSet_eq_def)

subsection \<open>Export of an empty collection\<close>

text \<open>
  Claim C3. When the primary field of an instance is empty, \<^verbatim>\<open>export_to_file\<close>
  raises the class's \<^verbatim>\<open>has no data\<close> exception and leaves the world as it was: no
  file is created or changed, and no warning is issued.
\<close>

theorem export_empty_raises:
  "(detectors_location_dict dl = Some [] \<longrightarrow>
      DetectorsLocation_export_to_file dl filepath w
        = (Some (Exception ''DetectorsLocation has no data. Export aborted.''), w))
 \<and> (detector_flow_data gfd = Some [] \<longrightarrow>
      GroundFlowData_export_to_file gfd filepath w
        = (Some (Exception ''GroundFlowData has no data. Export aborted.''), w))
 \<and> (aimsun_detector_locations ditrs = Some [] \<longrightarrow>
      DetectorIdToRoadSections_export_to_file ditrs filepath w
        = (Some (Exception ''DetectorIdToRoadSections has no data.Export aborted.''), w))
 \<and> (flow_data_set ofds = Some [] \<longrightarrow>
      OutputFlowDataSet_export_to_file ofds filepath w
        = (Some (Exception ''OutputFlowDataSet has no data. Export aborted.''), w))"
  by (simp add: DetectorsLocation_export_to_file_def GroundFlowData_export_to_file_def
      DetectorIdToRoadSections_export_to_file_def OutputFlowDataSet_export_to_file_def)

text \<open>
  C3 at an empty instance of each class; for \<^verbatim>\<open>DetectorsLocation\<close> the target file
  exists, and keeps its content.
\<close>

theorem export_empty_raises_witness:
  "DetectorsLocation_export_to_file \<lparr>detectors_location_dict = Some [], dl_year = 2021\<rparr>
      ''4.txt'' \<lparr>files = [''4.txt'' \<mapsto> [Junk UnpicklingError]], warnings = [], no_directory = {}\<rparr>
     = (Some (Exception ''DetectorsLocation has no data. Export aborted.''),
        \<lparr>files = [''4.txt'' \<mapsto> [Junk UnpicklingError]], warnings = [], no_directory = {}\<rparr>)
 \<and> GroundFlowData_export_to_file \<lparr>detector_flow_data = Some []\<rparr>
      ''4.txt'' \<lparr>files = Map.empty, warnings = [], no_directory = {}\<rparr>
     = (Some (Exception ''GroundFlowData has no data. Export aborted.''),
        \<lparr>files = Map.empty, warnings = [], no_directory = {}\<rparr>)
 \<and> DetectorIdToRoadSections_export_to_file \<lparr>aimsun_detector_locations = Some []\<rparr>
      ''4.txt'' \<lparr>files = Map.empty, warnings = [], no_directory = {}\<rparr>
     = (Some (Exception ''DetectorIdToRoadSections has no data.Export aborted.''),
        \<lparr>files = Map.empty, warnings = [], no_directory = {}\<rparr>)
 \<and> OutputFlowDataSet_export_to_file \<lparr>flow_data_set = Some [], ofds_year = None\<rparr>
      ''4.txt'' \<lparr>files = Map.empty, warnings = [], no_directory = {}\<rparr>
     = (Some (Exception ''OutputFlowDataSet has no data. Export aborted.''),
        \<lparr>files = Map.empty, warnings = [], no_directory = {}\<rparr>)"
  using export_empty_raises
    [of "\<lparr>detectors_location_dict = Some [], dl_year = 2021\<rparr>" "''4.txt''"
        "\<lparr>files = [''4.txt'' \<mapsto> [Junk UnpicklingError]], warnings = [], no_directory = {}\<rparr>"]
    export_empty_raises
    [of _ "''4.txt''" "\<lparr>files = Map.empty, warnings = [], no_directory = {}\<rparr>"
        "\<lparr>detector_flow_data = Some []\<rparr>" "\<lparr>aimsun_detector_locations = Some []\<rparr>"
        "\<lparr>flow_data_set = Some [], ofds_year = None\<rparr>"]
  by simp

subsection \<open>Import of a file with the wrong content\<close>

text \<open>
  Claim C4. A file that holds a list where \<^verbatim>\<open>DetectorsLocation\<close> expects a mapping
  does not make its constructor raise the \<^verbatim>\<open>File has incorrect data type\<close> exception:
  on the file of \<^verbatim>\<open>test_DL_import_wrong_file_serialized\<close>, a single pickled list of one
  string, the second \<^verbatim>\<open>pickle.load\<close> raises \<^verbatim>\<open>EOFError\<close> before any type is
  checked. On the same file the constructors of the three list-based classes raise the
  \<^verbatim>\<open>File has incorrect data type\<close> exception, as the claim says.
\<close>

theorem DetectorsLocation_init_single_list:
  "DetectorsLocation_init 9999 ''5.txt''
      \<lparr>files = [''5.txt'' \<mapsto> [Pickle (PyList [PyStr ''This is a wrong dataset''])]],
       warnings = [], no_directory = {}\<rparr> = Inl EOFError
 \<and> EOFError \<noteq> incorrect_data_type
 \<and> GroundFlowData_init ''5.txt''
      \<lparr>files = [''5.txt'' \<mapsto> [Pickle (PyList [PyStr ''This is a wrong dataset''])]],
       warnings = [], no_directory = {}\<rparr> = Inl incorrect_data_type
 \<and> DetectorIdToRoadSections_init ''5.txt''
      \<lparr>files = [''5.txt'' \<mapsto> [Pickle (PyList [PyStr ''This is a wrong dataset''])]],
       warnings = [], no_directory = {}\<rparr> = Inl incorrect_data_type
 \<and> OutputFlowDataSet_init ''5.txt''
      \<lparr>files = [''5.txt'' \<mapsto> [Pickle (PyList [PyStr ''This is a wrong dataset''])]],
       warnings = [], no_directory = {}\<rparr> = Inl incorrect_data_type"
  by (simp add: DetectorsLocation_init_def DetectorsLocation_import_from_file_def
      GroundFlowData_init_def GroundFlowData_import_from_file_def
      DetectorIdToRoadSections_init_def DetectorIdToRoadSections_import_from_file_def
      OutputFlowDataSet_init_def OutputFlowDataSet_import_from_file_def open_rb_def
      incorrect_data_type_def)

text \<open>
  Where the type checks are reached they do what C4 says. For the three list-based classes,
  a file whose first object is not a list, or is a list whose first element is not an
  instance of the element class, makes the constructor raise the
  \<^verbatim>\<open>File has incorrect data type\<close> exception. For \<^verbatim>\<open>DetectorsLocation\<close>, a file that
  holds two objects of which the first is not a dictionary or the second is not an integer
  does so.
\<close>

lemma import_type_mismatch:
  "filepath \<noteq> [] \<Longrightarrow>
   (files w filepath = Some (Pickle v # Pickle y # rest)
      \<and> (\<not> isinstance_dict v \<or> \<not> isinstance_int y)
      \<longrightarrow> DetectorsLocation_init year filepath w = Inl incorrect_data_type)
 \<and> (files w filepath = Some (Pickle v # rest)
      \<and> (\<not> isinstance_list v \<or> (\<exists>first l. v = PyList (first # l) \<and> \<not> isinstance_DetectorFlowData first))
      \<longrightarrow> GroundFlowData_init filepath w = Inl incorrect_data_type)
 \<and> (files w filepath = Some (Pickle v # rest)
      \<and> (\<not> isinstance_list v \<or> (\<exists>first l. v = PyList (first # l) \<and> \<not> isinstance_DetectorIdToRoadSection first))
      \<longrightarrow> DetectorIdToRoadSections_init filepath w = Inl incorrect_data_type)
 \<and> (files w filepath = Some (Pickle v # rest)
      \<and> (\<not> isinstance_list v \<or> (\<exists>first l. v = PyList (first # l) \<and> \<not> isinstance_OutputFlowData first))
      \<longrightarrow> OutputFlowDataSet_init filepath w = Inl incorrect_data_type)"
proof (intro conjI impI)
  assume "filepath \<noteq> []"
    and "files w filepath = Some (Pickle v # Pickle y # rest)
      \<and> (\<not> isinstance_dict v \<or> \<not> isinstance_int y)"
  then show "DetectorsLocation_init year filepath w = Inl incorrect_data_type"
    by (cases v; cases y)
       (simp_all add: DetectorsLocation_init_def DetectorsLocation_import_from_file_def open_rb_def)
next
  assume "filepath \<noteq> []"
    and "files w filepath = Some (Pickle v # rest)
      \<and> (\<not> isinstance_list v \<or> (\<exists>first l. v = PyList (first # l) \<and> \<not> isinstance_DetectorFlowData first))"
  then show "GroundFlowData_init filepath w = Inl incorrect_data_type"
    by (cases v)
       (auto simp add: GroundFlowData_init_def GroundFlowData_import_from_file_def open_rb_def)
next
  assume "filepath \<noteq> []"
    and "files w filepath = Some (Pickle v # rest)
      \<and> (\<not> isinstance_list v \<or> (\<exists>first l. v = PyList (first # l) \<and> \<not> isinstance_DetectorIdToRoadSection first))"
  then show "DetectorIdToRoadSections_init filepath w = Inl incorrect_data_type"
    by (cases v)
       (auto simp add: DetectorIdToRoadSections_init_def
          DetectorIdToRoadSections_import_from_file_def open_rb_def)
next
  assume "filepath \<noteq> []"
    and "files w filepath = Some (Pickle v # rest)
      \<and> (\<not> isinstance_list v \<or> (\<exists>first l. v = PyList (first # l) \<and> \<not> isinstance_OutputFlowData first))"
  then show "OutputFlowDataSet_init filepath w = Inl incorrect_data_type"
    by (cases v)
       (auto simp add: OutputFlowDataSet_init_def OutputFlowDataSet_import_from_file_def open_rb_def)
qed

text \<open>
  The same at a list holding a string, followed by a year.
\<close>

lemma import_type_mismatch_example:
  "DetectorsLocation_init 9999 ''5.txt''
      \<lparr>files = [''5.txt'' \<mapsto> [Pickle (PyList [PyStr ''This is a wrong dataset'']), Pickle (PyInt 2021)]],
       warnings = [], no_directory = {}\<rparr> = Inl incorrect_data_type
 \<and> GroundFlowData_init ''5.txt''
      \<lparr>files = [''5.txt'' \<mapsto> [Pickle (PyList [PyStr ''This is a wrong dataset'']), Pickle (PyInt 2021)]],
       warnings = [], no_directory = {}\<rparr> = Inl incorrect_data_type
 \<and> DetectorIdToRoadSections_init ''5.txt''
      \<lparr>files = [''5.txt'' \<mapsto> [Pickle (PyList [PyStr ''This is a wrong dataset'']), Pickle (PyInt 2021)]],
       warnings = [], no_directory = {}\<rparr> = Inl incorrect_data_type
 \<and> OutputFlowDataSet_init ''5.txt''
      \<lparr>files = [''5.txt'' \<mapsto> [Pickle (PyList [PyStr ''This is a wrong dataset'']), Pickle (PyInt 2021)]],
       warnings = [], no_directory = {}\<rparr> = Inl incorrect_data_type"
  using import_type_mismatch
    [of "''5.txt''"
        "\<lparr>files = [''5.txt'' \<mapsto> [Pickle (PyList [PyStr ''This is a wrong dataset'']), Pickle (PyInt 2021)]],
          warnings = [], no_directory = {}\<rparr>"
        "PyList [PyStr ''This is a wrong dataset'']" "PyInt 2021" "[]" 9999]
    import_type_mismatch
    [of "''5.txt''"
        "\<lparr>files = [''5.txt'' \<mapsto> [Pickle (PyList [PyStr ''This is a wrong dataset'']), Pickle (PyInt 2021)]],
          warnings = [], no_directory = {}\<rparr>"
        "PyList [PyStr ''This is a wrong dataset'']" "PyInt 2021" "[Pickle (PyInt 2021)]" 9999]
  by simp

subsection \<open>The import assigns all or nothing\<close>

text \<open>
  Claim C5. Whenever \<^verbatim>\<open>_import_from_file\<close> raises, \<^verbatim>\<open>self\<close> is as it was before
  the call; whenever it returns normally, the file starts with objects of the expected
  types and the fields of \<^verbatim>\<open>self\<close> are these objects.
\<close>

theorem import_atomic:
  "(fst (DetectorsLocation_import_from_file dl filepath w) \<noteq> None
      \<longrightarrow> snd (DetectorsLocation_import_from_file dl filepath w) = dl)
 \<and> (fst (DetectorsLocation_import_from_file dl filepath w) = None
      \<longrightarrow> (\<exists>d y rest. open_rb w filepath = Inr (Pickle (PyDict d) # Pickle (PyInt y) # rest)
            \<and> snd (DetectorsLocation_import_from_file dl filepath w)
                = dl\<lparr>detectors_location_dict := Some d, dl_year := y\<rparr>))
 \<and> (fst (GroundFlowData_import_from_file gfd filepath w) \<noteq> None
      \<longrightarrow> snd (GroundFlowData_import_from_file gfd filepath w) = gfd)
 \<and> (fst (GroundFlowData_import_from_file gfd filepath w) = None
      \<longrightarrow> (\<exists>l rest. open_rb w filepath = Inr (Pickle (PyList l) # rest)
            \<and> snd (GroundFlowData_import_from_file gfd filepath w)
                = gfd\<lparr>detector_flow_data := Some l\<rparr>))
 \<and> (fst (DetectorIdToRoadSections_import_from_file ditrs filepath w) \<noteq> None
      \<longrightarrow> snd (DetectorIdToRoadSections_import_from_file ditrs filepath w) = ditrs)
 \<and> (fst (DetectorIdToRoadSections_import_from_file ditrs filepath w) = None
      \<longrightarrow> (\<exists>l rest. open_rb w filepath = Inr (Pickle (PyList l) # rest)
            \<and> snd (DetectorIdToRoadSections_import_from_file ditrs filepath w)
                = ditrs\<lparr>aimsun_detector_locations := Some l\<rparr>))
 \<and> (fst (OutputFlowDataSet_import_from_file ofds filepath w) \<noteq> None
      \<longrightarrow> snd (OutputFlowDataSet_import_from_file ofds filepath w) = ofds)
 \<and> (fst (OutputFlowDataSet_import_from_file ofds filepath w) = None
      \<longrightarrow> (\<exists>l rest. open_rb w filepath = Inr (Pickle (PyList l) # rest)
            \<and> snd (OutputFlowDataSet_import_from_file ofds filepath w)
                = ofds\<lparr>flow_data_set := Some l\<rparr>))"
proof (intro conjI)
  show "fst (DetectorsLocation_import_from_file dl filepath w) \<noteq> None
      \<longrightarrow> snd (DetectorsLocation_import_from_file dl filepath w) = dl"
    by (simp add: DetectorsLocation_import_from_file_def
        split: sum.split prod.split pyval.split)
  show "fst (DetectorsLocation_import_from_file dl filepath w) = None
      \<longrightarrow> (\<exists>d y rest. open_rb w filepath = Inr (Pickle (PyDict d) # Pickle (PyInt y) # rest)
            \<and> snd (DetectorsLocation_import_from_file dl filepath w)
                = dl\<lparr>detectors_location_dict := Some d, dl_year := y\<rparr>)"
    by (simp add: DetectorsLocation_import_from_file_def pickle_load_Inr
        split: sum.split prod.split pyval.split)
  show "fst (GroundFlowData_import_from_file gfd filepath w) \<noteq> None
      \<longrightarrow> snd (GroundFlowData_import_from_file gfd filepath w) = gfd"
    by (simp add: GroundFlowData_import_from_file_def
        split: sum.split prod.split pyval.split list.split)
  show "fst (GroundFlowData_import_from_file gfd filepath w) = None
      \<longrightarrow> (\<exists>l rest. open_rb w filepath = Inr (Pickle (PyList l) # rest)
            \<and> snd (GroundFlowData_import_from_file gfd filepath w)
                = gfd\<lparr>detector_flow_data := Some l\<rparr>)"
    by (simp add: GroundFlowData_import_from_file_def pickle_load_Inr
        split: sum.split prod.split pyval.split list.split)
  show "fst (DetectorIdToRoadSections_import_from_file ditrs filepath w) \<noteq> None
      \<longrightarrow> snd (DetectorIdToRoadSections_import_from_file ditrs filepath w) = ditrs"
    by (simp add: DetectorIdToRoadSections_import_from_file_def
        split: sum.split prod.split pyval.split list.split)
  show "fst (DetectorIdToRoadSections_import_from_file ditrs filepath w) = None
      \<longrightarrow> (\<exists>l rest. open_rb w filepath = Inr (Pickle (PyList l) # rest)
            \<and> snd (DetectorIdToRoadSections_import_from_file ditrs filepath w)
                = ditrs\<lparr>aimsun_detector_locations := Some l\<rparr>)"
    by (simp add: DetectorIdToRoadSections_import_from_file_def pickle_load_Inr
        split: sum.split prod.split pyval.split list.split)
  show "fst (OutputFlowDataSet_import_from_file ofds filepath w) \<noteq> None
      \<longrightarrow> snd (OutputFlowDataSet_import_from_file ofds filepath w) = ofds"
    by (simp add: OutputFlowDataSet_import_from_file_def
        split: sum.split prod.split pyval.split list.split)
  show "fst (OutputFlowDataSet_import_from_file ofds filepath w) = None
      \<longrightarrow> (\<exists>l rest. open_rb w filepath = Inr (Pickle (PyList l) # rest)
            \<and> snd (OutputFlowDataSet_import_from_file ofds filepath w)
                = ofds\<lparr>flow_data_set := Some l\<rparr>)"
    by (simp add: OutputFlowDataSet_import_from_file_def pickle_load_Inr
        split: sum.split prod.split pyval.split list.split)
qed

text \<open>
  C5 at a failing import into a populated \<^verbatim>\<open>DetectorsLocation\<close> and at a successful
  import into a new \<^verbatim>\<open>GroundFlowData\<close>.
\<close>

theorem import_atomic_witness:
  "fst (DetectorsLocation_import_from_file
          \<lparr>detectors_location_dict = Some [(1, north_bound, \<lparr>point_x = 0, point_y = 0\<rparr>)],
           dl_year = 2020\<rparr> ''5.txt''
          \<lparr>files = [''5.txt'' \<mapsto> [Pickle (PyDict []), Pickle (PyStr ''2021'')]], warnings = [], no_directory = {}\<rparr>)
      = Some incorrect_data_type
 \<and> snd (DetectorsLocation_import_from_file
          \<lparr>detectors_location_dict = Some [(1, north_bound, \<lparr>point_x = 0, point_y = 0\<rparr>)],
           dl_year = 2020\<rparr> ''5.txt''
          \<lparr>files = [''5.txt'' \<mapsto> [Pickle (PyDict []), Pickle (PyStr ''2021'')]], warnings = [], no_directory = {}\<rparr>)
      = \<lparr>detectors_location_dict = Some [(1, north_bound, \<lparr>point_x = 0, point_y = 0\<rparr>)],
         dl_year = 2020\<rparr>
 \<and> fst (GroundFlowData_import_from_file \<lparr>detector_flow_data = None\<rparr> ''7.txt''
          \<lparr>files = [''7.txt'' \<mapsto> [Pickle (PyList [PyDetectorFlowData
             \<lparr>dfd_detector_id = 1, dfd_direction = north_bound, dfd_flow_data = [],
              dfd_name = ''a'', dfd_year = 2021\<rparr>, PyNone])]], warnings = [], no_directory = {}\<rparr>)
      = None
 \<and> snd (GroundFlowData_import_from_file \<lparr>detector_flow_data = None\<rparr> ''7.txt''
          \<lparr>files = [''7.txt'' \<mapsto> [Pickle (PyList [PyDetectorFlowData
             \<lparr>dfd_detector_id = 1, dfd_direction = north_bound, dfd_flow_data = [],
              dfd_name = ''a'', dfd_year = 2021\<rparr>, PyNone])]], warnings = [], no_directory = {}\<rparr>)
      = \<lparr>detector_flow_data = Some [PyDetectorFlowData
             \<lparr>dfd_detector_id = 1, dfd_direction = north_bound, dfd_flow_data = [],
              dfd_name = ''a'', dfd_year = 2021\<rparr>, PyNone]\<rparr>"
proof -
  let ?dl = "\<lparr>detectors_location_dict = Some [(1, north_bound, \<lparr>point_x = 0, point_y = 0\<rparr>)],
           dl_year = 2020\<rparr>"
  let ?w5 = "\<lparr>files = [''5.txt'' \<mapsto> [Pickle (PyDict []), Pickle (PyStr ''2021'')]], warnings = [], no_directory = {}\<rparr>"
  let ?l = "[PyDetectorFlowData
             \<lparr>dfd_detector_id = 1, dfd_direction = north_bound, dfd_flow_data = [],
              dfd_name = ''a'', dfd_year = 2021\<rparr>, PyNone]"
  let ?w7 = "\<lparr>files = [''7.txt'' \<mapsto> [Pickle (PyList ?l)]], warnings = [], no_directory = {}\<rparr>"
  have 1: "fst (DetectorsLocation_import_from_file ?dl ''5.txt'' ?w5) = Some incorrect_data_type"
    by (simp add: DetectorsLocation_import_from_file_def open_rb_def)
  have 2: "fst (GroundFlowData_import_from_file \<lparr>detector_flow_data = None\<rparr> ''7.txt'' ?w7) = None"
    by (simp add: GroundFlowData_import_from_file_def open_rb_def)
  have 3: "open_rb ?w7 ''7.txt'' = Inr [Pickle (PyList ?l)]"
    by (simp add: open_rb_def)
  note a = import_atomic [of ?dl "''5.txt''" ?w5]
    import_atomic [of _ "''7.txt''" ?w7 "\<lparr>detector_flow_data = None\<rparr>"]
  from a(1) 1 have "snd (DetectorsLocation_import_from_file ?dl ''5.txt'' ?w5) = ?dl"
    by simp
  moreover from a(2) 2 3
  have "snd (GroundFlowData_import_from_file \<lparr>detector_flow_data = None\<rparr> ''7.txt'' ?w7)
          = \<lparr>detector_flow_data = Some ?l\<rparr>"
    by simp
  ultimately show ?thesis using 1 2 by simp
qed

subsection \<open>Import of a file that is no pickle\<close>

text \<open>
  Claim C6, as amended. When the file does not start with a pickle, so that
  \<^verbatim>\<open>pickle.load\<close> raises an exception \<open>e\<close>, the constructor of each of the four
  classes raises this same \<open>e\<close>: the exception that \<^verbatim>\<open>pickle.load\<close> raises leaves
  the constructor unchanged.
\<close>

theorem import_malformed_file:
  "filepath \<noteq> [] \<and> files w filepath = Some (Junk e # rest) \<longrightarrow>
     DetectorsLocation_init year filepath w = Inl e
   \<and> GroundFlowData_init filepath w = Inl e
   \<and> DetectorIdToRoadSections_init filepath w = Inl e
   \<and> OutputFlowDataSet_init filepath w = Inl e"
  by (simp add: DetectorsLocation_init_def DetectorsLocation_import_from_file_def
      GroundFlowData_init_def GroundFlowData_import_from_file_def
      DetectorIdToRoadSections_init_def DetectorIdToRoadSections_import_from_file_def
      OutputFlowDataSet_init_def OutputFlowDataSet_import_from_file_def open_rb_def)

text \<open>
  C6 at the plain-text file \<^verbatim>\<open>I am a text file\<close>, for which \<^verbatim>\<open>pickle.load\<close>
  raises \<^verbatim>\<open>ValueError\<close>.
\<close>

theorem import_malformed_file_witness:
  "DetectorsLocation_init 9999 ''6.txt''
      \<lparr>files = [''6.txt'' \<mapsto> [Junk ValueError]], warnings = [], no_directory = {}\<rparr>
    = Inl ValueError
 \<and> GroundFlowData_init ''6.txt''
      \<lparr>files = [''6.txt'' \<mapsto> [Junk ValueError]], warnings = [], no_directory = {}\<rparr>
    = Inl ValueError
 \<and> DetectorIdToRoadSections_init ''6.txt''
      \<lparr>files = [''6.txt'' \<mapsto> [Junk ValueError]], warnings = [], no_directory = {}\<rparr>
    = Inl ValueError
 \<and> OutputFlowDataSet_init ''6.txt''
      \<lparr>files = [''6.txt'' \<mapsto> [Junk ValueError]], warnings = [], no_directory = {}\<rparr>
    = Inl ValueError"
  using import_malformed_file
    [of "''6.txt''"
        "\<lparr>files = [''6.txt'' \<mapsto> [Junk ValueError]], warnings = [], no_directory = {}\<rparr>"
        ValueError "[]" 9999]
  by simp

text \<open>
  C6 as stated fails at the plain-text file of the tests,
  \<^verbatim>\<open>This is not a serialized detector flow data\<close>, for which \<^verbatim>\<open>pickle.load\<close> raises
  \<^verbatim>\<open>UnpicklingError\<close>: this exception, which leaves the constructor, is not the
  \<^verbatim>\<open>File has incorrect data type\<close> exception.
\<close>

theorem import_plain_text_counterexample:
  "GroundFlowData_init ''6.txt''
      \<lparr>files = [''6.txt'' \<mapsto> [Junk UnpicklingError]], warnings = [], no_directory = {}\<rparr>
    = Inl UnpicklingError
 \<and> UnpicklingError \<noteq> incorrect_data_type"
  by (simp add: GroundFlowData_init_def GroundFlowData_import_from_file_def open_rb_def
      incorrect_data_type_def)

subsection \<open>Export to an existing file\<close>

text \<open>
  Claim C7. When a file exists at the path and the primary field is not empty,
  \<^verbatim>\<open>export_to_file\<close> returns normally, has issued exactly one warning, and the file
  holds the exported objects and nothing of its former content.
\<close>

theorem export_existing_file:
  "path_exists w filepath \<Longrightarrow>
   (detectors_location_dict dl = Some d \<and> d \<noteq> [] \<longrightarrow>
      DetectorsLocation_export_to_file dl filepath w
        = (None, w\<lparr>files := (files w)(filepath \<mapsto> [Pickle (PyDict d), Pickle (PyInt (dl_year dl))]),
                    warnings := warnings w @ [''File already exists at filepath. Overwriting file.'']\<rparr>))
 \<and> (detector_flow_data gfd = Some l \<and> l \<noteq> [] \<longrightarrow>
      GroundFlowData_export_to_file gfd filepath w
        = (None, w\<lparr>files := (files w)(filepath \<mapsto> [Pickle (PyList l)]),
                    warnings := warnings w @ [''File already exists at filepath. Overwriting file.'']\<rparr>))
 \<and> (aimsun_detector_locations ditrs = Some l \<and> l \<noteq> [] \<longrightarrow>
      DetectorIdToRoadSections_export_to_file ditrs filepath w
        = (None, w\<lparr>files := (files w)(filepath \<mapsto> [Pickle (PyList l)]),
                    warnings := warnings w @ [''File already exists at filepath. Overwriting file.'']\<rparr>))
 \<and> (flow_data_set ofds = Some l \<and> l \<noteq> [] \<longrightarrow>
      OutputFlowDataSet_export_to_file ofds filepath w
        = (None, w\<lparr>files := (files w)(filepath \<mapsto> [Pickle (PyList l)]),
                    warnings := warnings w @ [''File already exists at filepath. Overwriting file.'']\<rparr>))"
proof -
  assume "path_exists w filepath"
  then obtain content where "filepath \<noteq> []" and "files w filepath = Some content"
    by (auto simp add: path_exists_def)
  then show ?thesis
    by (simp add: DetectorsLocation_export_to_file_def GroundFlowData_export_to_file_def
        DetectorIdToRoadSections_export_to_file_def OutputFlowDataSet_export_to_file_def
        world_ops)
qed

text \<open>
  C7 at an instance of each class and an existing plain-text file \<^verbatim>\<open>3.txt\<close>.
\<close>

theorem export_existing_file_witness:
  "path_exists \<lparr>files = [''3.txt'' \<mapsto> [Junk UnpicklingError]], warnings = [], no_directory = {}\<rparr> ''3.txt''
 \<and> DetectorsLocation_export_to_file
      \<lparr>detectors_location_dict = Some [(1, north_bound, \<lparr>point_x = 0, point_y = 0\<rparr>)],
       dl_year = 2021\<rparr> ''3.txt''
      \<lparr>files = [''3.txt'' \<mapsto> [Junk UnpicklingError]], warnings = [], no_directory = {}\<rparr>
    = (None, \<lparr>files = [''3.txt'' \<mapsto>
                 [Pickle (PyDict [(1, north_bound, \<lparr>point_x = 0, point_y = 0\<rparr>)]),
                  Pickle (PyInt 2021)]],
              warnings = [''File already exists at filepath. Overwriting file.''],
              no_directory = {}\<rparr>)
 \<and> GroundFlowData_export_to_file \<lparr>detector_flow_data = Some [PyNone]\<rparr> ''3.txt''
      \<lparr>files = [''3.txt'' \<mapsto> [Junk UnpicklingError]], warnings = [], no_directory = {}\<rparr>
    = (None, \<lparr>files = [''3.txt'' \<mapsto> [Pickle (PyList [PyNone])]],
              warnings = [''File already exists at filepath. Overwriting file.''],
              no_directory = {}\<rparr>)
 \<and> DetectorIdToRoadSections_export_to_file \<lparr>aimsun_detector_locations = Some [PyNone]\<rparr> ''3.txt''
      \<lparr>files = [''3.txt'' \<mapsto> [Junk UnpicklingError]], warnings = [], no_directory = {}\<rparr>
    = (None, \<lparr>files = [''3.txt'' \<mapsto> [Pickle (PyList [PyNone])]],
              warnings = [''File already exists at filepath. Overwriting file.''],
              no_directory = {}\<rparr>)
 \<and> OutputFlowDataSet_export_to_file \<lparr>flow_data_set = Some [PyNone], ofds_year = None\<rparr> ''3.txt''
      \<lparr>files = [''3.txt'' \<mapsto> [Junk UnpicklingError]], warnings = [], no_directory = {}\<rparr>
    = (None, \<lparr>files = [''3.txt'' \<mapsto> [Pickle (PyList [PyNone])]],
              warnings = [''File already exists at filepath. Overwriting file.''],
              no_directory = {}\<rparr>)"
proof -
  let ?w = "\<lparr>files = [''3.txt'' \<mapsto> [Junk UnpicklingError]], warnings = [], no_directory = {}\<rparr>"
  have p: "path_exists ?w ''3.txt''"
    by (simp add: path_exists_def)
  from export_existing_file [OF p,
      of "\<lparr>detectors_location_dict = Some [(1, north_bound, \<lparr>point_x = 0, point_y = 0\<rparr>)],
           dl_year = 2021\<rparr>"
         "[(1, north_bound, \<lparr>point_x = 0, point_y = 0\<rparr>)]"
         "\<lparr>detector_flow_data = Some [PyNone]\<rparr>" "[PyNone]"
         "\<lparr>aimsun_detector_locations = Some [PyNone]\<rparr>"
         "\<lparr>flow_data_set = Some [PyNone], ofds_year = None\<rparr>"] p
  show ?thesis by simp
qed

subsection \<open>Equality of OutputFlowDataSet and the year\<close>

text \<open>
  Claim C8. \<^verbatim>\<open>OutputFlowDataSet.__eq__\<close> does not depend on \<^verbatim>\<open>year\<close>: changing the
  year of either operand does not change the result, which is the same for any two pairs
  of operands with the same \<^verbatim>\<open>flow_data_set\<close> lists.
\<close>

theorem OutputFlowDataSet_eq_ignores_year:
  "OutputFlowDataSet_eq (a\<lparr>ofds_year := ya\<rparr>) (b\<lparr>ofds_year := yb\<rparr>) = OutputFlowDataSet_eq a b
 \<and> (flow_data_set a = flow_data_set a' \<and> flow_data_set b = flow_data_set b'
      \<longrightarrow> OutputFlowDataSet_eq a b = OutputFlowDataSet_eq a' b')"
  by (simp add: OutputFlowDataSet_eq_def split: option.split)

text \<open>
  C8 at two instances with equal lists and different years.
\<close>

theorem OutputFlowDataSet_eq_ignores_year_witness:
  "OutputFlowDataSet_eq
      \<lparr>flow_data_set = Some [PyOutputFlowData \<lparr>ofd_detector_id = 1, ofd_flow_data = [], ofd_section_id = 5\<rparr>],
       ofds_year = Some 2020\<rparr>
      \<lparr>flow_data_set = Some [PyOutputFlowData \<lparr>ofd_detector_id = 1, ofd_flow_data = [], ofd_section_id = 5\<rparr>],
       ofds_year = Some 2021\<rparr>
    = OutputFlowDataSet_eq
      \<lparr>flow_data_set = Some [PyOutputFlowData \<lparr>ofd_detector_id = 1, ofd_flow_data = [], ofd_section_id = 5\<rparr>],
       ofds_year = None\<rparr>
      \<lparr>flow_data_set = Some [PyOutputFlowData \<lparr>ofd_detector_id = 1, ofd_flow_data = [], ofd_section_id = 5\<rparr>],
       ofds_year = Some 1999\<rparr>
 \<and> OutputFlowDataSet_eq
      \<lparr>flow_data_set = Some [PyOutputFlowData \<lparr>ofd_detector_id = 1, ofd_flow_data = [], ofd_section_id = 5\<rparr>],
       ofds_year = Some 2020\<rparr>
      \<lparr>flow_data_set = Some [PyOutputFlowData \<lparr>ofd_detector_id = 1, ofd_flow_data = [], ofd_section_id = 5\<rparr>],
       ofds_year = Some 2021\<rparr> = Inr True"
  using OutputFlowDataSet_eq_ignores_year
    [where a = "\<lparr>flow_data_set = Some [PyOutputFlowData \<lparr>ofd_detector_id = 1, ofd_flow_data = [], ofd_section_id = 5\<rparr>],
          ofds_year = Some 2020\<rparr>"
       and ya = None
       and b = "\<lparr>flow_data_set = Some [PyOutputFlowData \<lparr>ofd_detector_id = 1, ofd_flow_data = [], ofd_section_id = 5\<rparr>],
          ofds_year = Some 2021\<rparr>"
       and yb = "Some 1999"
       and a' = "\<lparr>flow_data_set = Some [PyOutputFlowData \<lparr>ofd_detector_id = 1, ofd_flow_data = [], ofd_section_id = 5\<rparr>],
          ofds_year = None\<rparr>"
       and b' = "\<lparr>flow_data_set = Some [PyOutputFlowData \<lparr>ofd_detector_id = 1, ofd_flow_data = [], ofd_section_id = 5\<rparr>],
          ofds_year = Some 1999\<rparr>"]
  by (simp add: OutputFlowDataSet_eq_def OutputFlowDataSet_differ_def attr_ne_def py_or_def dict_eq_def)

subsection \<open>Import of an empty list\<close>

text \<open>
  Claim C9. For the three list-based classes, a file whose first object is the empty
  list makes the constructor raise \<^verbatim>\<open>IndexError\<close>, which is not the
  \<^verbatim>\<open>File has incorrect data type\<close> exception.
\<close>

theorem import_empty_list_IndexError:
  "filepath \<noteq> [] \<and> files w filepath = Some (Pickle (PyList []) # rest) \<longrightarrow>
     GroundFlowData_init filepath w = Inl IndexError
   \<and> DetectorIdToRoadSections_init filepath w = Inl IndexError
   \<and> OutputFlowDataSet_init filepath w = Inl IndexError
   \<and> IndexError \<noteq> incorrect_data_type"
  by (simp add: GroundFlowData_init_def GroundFlowData_import_from_file_def
      DetectorIdToRoadSections_init_def DetectorIdToRoadSections_import_from_file_def
      OutputFlowDataSet_init_def OutputFlowDataSet_import_from_file_def open_rb_def
      incorrect_data_type_def)

text \<open>
  C9 at a file that holds the pickle of \<^verbatim>\<open>[]\<close>.
\<close>

theorem import_empty_list_IndexError_witness:
  "GroundFlowData_init ''8.txt''
      \<lparr>files = [''8.txt'' \<mapsto> [Pickle (PyList [])]], warnings = [], no_directory = {}\<rparr> = Inl IndexError
   \<and> DetectorIdToRoadSections_init ''8.txt''
      \<lparr>files = [''8.txt'' \<mapsto> [Pickle (PyList [])]], warnings = [], no_directory = {}\<rparr> = Inl IndexError
   \<and> OutputFlowDataSet_init ''8.txt''
      \<lparr>files = [''8.txt'' \<mapsto> [Pickle (PyList [])]], warnings = [], no_directory = {}\<rparr> = Inl IndexError"
  using import_empty_list_IndexError
    [of "''8.txt''" "\<lparr>files = [''8.txt'' \<mapsto> [Pickle (PyList [])]], warnings = [], no_directory = {}\<rparr>" "[]"]
  by simp

subsection \<open>The year of an imported DetectorsLocation\<close>

text \<open>
  Claim C10. When \<^verbatim>\<open>DetectorsLocation(y, filepath)\<close> imports a file that holds a
  dictionary and the year \<open>y'\<close>, the year of the new object is \<open>y'\<close>, whatever
  \<open>y\<close> is; and whenever the constructor returns an object for a non-empty path, the
  object's year is the integer in the file.
\<close>

theorem DetectorsLocation_init_year_from_file:
  "filepath \<noteq> [] \<Longrightarrow>
   (files w filepath = Some (Pickle (PyDict d) # Pickle (PyInt y') # rest)
      \<longrightarrow> DetectorsLocation_init y filepath w
            = Inr \<lparr>detectors_location_dict = Some d, dl_year = y'\<rparr>)
 \<and> (DetectorsLocation_init y filepath w = Inr dl
      \<longrightarrow> (\<exists>d rest. files w filepath
                      = Some (Pickle (PyDict d) # Pickle (PyInt (dl_year dl)) # rest)))"
proof (intro conjI impI)
  assume "filepath \<noteq> []"
    and "files w filepath = Some (Pickle (PyDict d) # Pickle (PyInt y') # rest)"
  then show "DetectorsLocation_init y filepath w
      = Inr \<lparr>detectors_location_dict = Some d, dl_year = y'\<rparr>"
    by (simp add: DetectorsLocation_init_def DetectorsLocation_import_from_file_def open_rb_def)
next
  assume p: "filepath \<noteq> []" and i: "DetectorsLocation_init y filepath w = Inr dl"
  let ?self = "\<lparr>detectors_location_dict = None, dl_year = y\<rparr>"
  from p i have f: "fst (DetectorsLocation_import_from_file ?self filepath w) = None"
    and s: "snd (DetectorsLocation_import_from_file ?self filepath w) = dl"
    by (auto simp add: DetectorsLocation_init_def split: prod.splits option.splits)
  from DetectorsLocation_import_success [OF f] s
  obtain d y1 rest where o: "open_rb w filepath = Inr (Pickle (PyDict d) # Pickle (PyInt y1) # rest)"
    and dl: "dl = ?self\<lparr>detectors_location_dict := Some d, dl_year := y1\<rparr>"
    by auto
  from dl have "dl_year dl = y1" by simp
  with open_rb_Inr [OF o]
  show "\<exists>d rest. files w filepath = Some (Pickle (PyDict d) # Pickle (PyInt (dl_year dl)) # rest)"
    by blast
qed

text \<open>
  C10 at a file written with the year 2021 and a constructor called with 1999.
\<close>

theorem DetectorsLocation_init_year_from_file_witness:
  "DetectorsLocation_init 1999 ''7.txt''
      \<lparr>files = [''7.txt'' \<mapsto> [Pickle (PyDict [(1, north_bound, \<lparr>point_x = 0, point_y = 0\<rparr>)]),
                               Pickle (PyInt 2021)]], warnings = [], no_directory = {}\<rparr>
    = Inr \<lparr>detectors_location_dict = Some [(1, north_bound, \<lparr>point_x = 0, point_y = 0\<rparr>)],
           dl_year = 2021\<rparr>
 \<and> (1999::int) \<noteq> 2021"
  using DetectorsLocation_init_year_from_file
    [of "''7.txt''"
        "\<lparr>files = [''7.txt'' \<mapsto> [Pickle (PyDict [(1, north_bound, \<lparr>point_x = 0, point_y = 0\<rparr>)]),
                               Pickle (PyInt 2021)]], warnings = [], no_directory = {}\<rparr>"
        "[(1, north_bound, \<lparr>point_x = 0, point_y = 0\<rparr>)]" 2021 "[]" 1999]
  by simp

end
